theory Spec2Isabelle
  imports Main "HOL-Library.Sublist"
begin

section \<open>Installer bot: ServiceNow tickets, admin approval, Rundeck jobs\<close>

text \<open>
  The theory embeds \<^verbatim>\<open>Installer_Bot/rundeck.py\<close> and the card-submission handlers of
  \<^verbatim>\<open>Installer_Bot/bot.py\<close>.

  Everything the handlers do to the outside (chat activities, console lines, HTTP requests to
  ServiceNow and Rundeck, calls into the database connector and the LLM) is appended to a
  trace of effects, in program order. What the outside answers is read from a \<open>world\<close>:
  one function per external operation, taking the length of the trace at the moment of the
  call (so that two calls with equal arguments may be answered differently) and the arguments
  of the call. Python exceptions are values of \<open>exn\<close>; a function that may raise returns
  a \<open>result\<close>. The polling loop of \<^verbatim>\<open>check_job_status\<close> has no bound in the source, so
  it is a partial function: \<open>None\<close> stands for a call that never returns.
\<close>

subsection \<open>Python values\<close>

type_synonym dict = "(string \<times> string) list"

text \<open>\<^verbatim>\<open>d.get(k, default)\<close> on a dictionary with string keys and string values.\<close>

definition dict_get :: "dict \<Rightarrow> string \<Rightarrow> string \<Rightarrow> string" where
  "dict_get d k dflt = (case map_of d k of None \<Rightarrow> dflt | Some v \<Rightarrow> v)"

text \<open>\<^verbatim>\<open>d[k] = v\<close>.\<close>

definition dict_set :: "dict \<Rightarrow> string \<Rightarrow> string \<Rightarrow> dict" where
  "dict_set d k v = (if k \<in> fst ` set d then map (\<lambda>(k', v'). if k' = k then (k', v) else (k', v')) d
                     else d @ [(k, v)])"

text \<open>Truthiness of a string: the empty string is falsy.\<close>

definition truthy :: "string \<Rightarrow> bool" where
  "truthy s = (s \<noteq> [])"

text \<open>\<^verbatim>\<open>x or y\<close> on optional strings (\<open>None\<close> is Python's \<^verbatim>\<open>None\<close>).\<close>

fun py_or :: "string option \<Rightarrow> string option \<Rightarrow> string option" where
  "py_or (Some s) y = (if truthy s then Some s else y)"
| "py_or None y = y"

text \<open>\<^verbatim>\<open>str.lower()\<close> and \<^verbatim>\<open>str.strip()\<close>, on ASCII: letters \<open>A\<close> to \<open>Z\<close> are mapped,
  and the white space stripped is the ASCII white space of Python (codes 9 to 13, 28 to 32).\<close>

definition lower_char :: "char \<Rightarrow> char" where
  "lower_char c =
     (case map_of (zip ''ABCDEFGHIJKLMNOPQRSTUVWXYZ'' ''abcdefghijklmnopqrstuvwxyz'') c of
        Some l \<Rightarrow> l
      | None \<Rightarrow> c)"

definition lower :: "string \<Rightarrow> string" where
  "lower s = map lower_char s"

definition isspace :: "char \<Rightarrow> bool" where
  "isspace c = (let n = (of_char c :: nat) in (9 \<le> n \<and> n \<le> 13) \<or> (28 \<le> n \<and> n \<le> 32))"

definition strip :: "string \<Rightarrow> string" where
  "strip s = rev (dropWhile isspace (rev (dropWhile isspace s)))"

text \<open>\<^verbatim>\<open>s.split(",")\<close>: the pieces between commas, at least one piece.\<close>

fun split_comma :: "string \<Rightarrow> string list" where
  "split_comma [] = [[]]"
| "split_comma (c # cs) =
     (if c = CHR '','' then [] # split_comma cs
      else (case split_comma cs of p # ps \<Rightarrow> (c # p) # ps | [] \<Rightarrow> [[c]]))"

subsection \<open>Exceptions, HTTP answers, effects\<close>

datatype exn =
    TransportError
  | HTTPStatusError nat
  | JSONDecodeError
  | KeyError string
  | TypeError
  | AttributeError
  | LLMError

datatype 'a result = Return 'a | Raise exn

text \<open>An HTTP call either raises in the client library or yields a status code and a body.
  The body is given by what the code reads from it.\<close>

datatype 'a http = HttpRaise exn | HttpResp nat 'a

text \<open>Rundeck: the body of the run request (\<^verbatim>\<open>response.json()\<close>, then \<^verbatim>\<open>data["id"]\<close>)
  and of the status request (\<^verbatim>\<open>response.json()["status"]\<close>).\<close>

datatype run_body = RunBodyInvalid | RunBodyNoId | RunBodyId int
datatype status_body = StatusBodyInvalid | StatusBodyNoStatus | StatusBodyStatus string

text \<open>ServiceNow: the lookup body is the list under \<^verbatim>\<open>"result"\<close> (empty when the key is
  absent), each row with or without a \<^verbatim>\<open>"sys_id"\<close>; the update body is only decoded.\<close>

datatype lookup_body = LookupBodyInvalid | LookupBody "string option list"
datatype patch_body = PatchBodyInvalid | PatchBody string

text \<open>The body of the create request, a JSON object given by what the code reads from it:
  the \<^verbatim>\<open>"result"\<close> field (absent, a dictionary with or without a \<^verbatim>\<open>"number"\<close>, or
  present and not a dictionary, \<^verbatim>\<open>null\<close> included), the top-level \<^verbatim>\<open>"number"\<close> (absent,
  \<^verbatim>\<open>null\<close>, or a string), and whether the object has any other key. A key that is present
  makes the object non-empty whatever its value.\<close>

datatype result_field = ResultAbsent | ResultDict "string option" | ResultNonDict

datatype number_field = NumberAbsent | NumberNull | NumberString string

record create_json =
  cj_result :: result_field
  cj_number :: number_field
  cj_other_keys :: bool

datatype create_body = CreateBodyInvalid | CreateBody create_json

text \<open>What \<^verbatim>\<open>json.loads\<close> makes of the LLM reply: an object, or something else.\<close>

datatype incident_json = JObject dict | JNonObject

datatype llm_reply = LlmRaise exn | LlmJson incident_json | LlmNotJson

text \<open>\<^verbatim>\<open>get_software_info\<close> of the database connector: raises, returns \<^verbatim>\<open>None\<close>, or
  returns a dictionary with or without \<^verbatim>\<open>'name'\<close> and \<^verbatim>\<open>'version'\<close>.\<close>

datatype software_info = SwRaise exn | SwNone | SwInfo "string option" "string option"

type_synonym catalog = "(string \<times> string list) list"

text \<open>The dictionary \<^verbatim>\<open>update_incident_state_sn\<close> returns: \<^verbatim>\<open>{"error": ...}\<close> with one of
  its three messages, or \<^verbatim>\<open>{"success": True, "data": ...}\<close>.\<close>

datatype update_error = IncidentNotFound string | InvalidState string | UpdateException exn
datatype update_result = UpdError update_error | UpdSuccess string

text \<open>\<^verbatim>\<open>update_result and update_result.get("success")\<close>.\<close>

fun upd_success :: "update_result \<Rightarrow> bool" where
  "upd_success (UpdSuccess d) = True"
| "upd_success (UpdError e) = False"

datatype card =
    SoftwareCard string "string list"
  | AdminApprovalCard dict
  | FeedbackCard string string string string

text \<open>The chat messages, one constructor per message text of the source, with the values
  the text is formatted with.\<close>

datatype message =
    MsgCreatingTicket string string
  | MsgIncidentCreated string
  | MsgCreateFailed
  | MsgSelectVersion
  | MsgSelectSoftware
  | MsgFoundSelected nat nat
  | MsgCouldntFind "string list"
  | MsgNoneFound "string list"
  | MsgSwitchingToAdmin
  | MsgAdminNotification
  | MsgSnUpdated string string
  | MsgSnUpdateFailed update_result
  | MsgApproved string string string
  | MsgTriggerFailed
  | MsgJobStarted int
  | MsgInstallSucceeded string string
  | MsgInstallFailed string string
  | MsgStatusUnknown
  | MsgRejected string string string string
  | MsgFeedbackPrompt
  | MsgFeedbackThanks string string
  | MsgFeedbackNotSaved
  | MsgSkipThanks string
  | MsgError

text \<open>The console lines (\<^verbatim>\<open>print\<close>).\<close>

datatype console =
    PrintTriggerFailed nat
  | PrintJobStatus string
  | PrintRawLLM
  | PrintLLMNotJson
  | PrintCreating
  | PrintCreated
  | PrintCreateError exn
  | PrintUpdating string string
  | PrintUpdateError exn
  | PrintFullResponse
  | PrintIncidentNumber string
  | PrintRequestLogged string
  | PrintLogFailed string
  | PrintCannotLog
  | PrintCreateFailed
  | PrintCardData dict
  | PrintSelected string
  | PrintSelectedType
  | PrintSoftwareList "string list"
  | PrintCatalog catalog
  | PrintCardError exn

datatype effect =
    Send message
  | SendCard card
  | Print console
  | Sleep nat
  | RundeckRun string "string option"
  | RundeckGet int
  | SnLookup string
  | SnPatch string string
  | SnCreate dict
  | GroqChat string
  | DbSoftwareInfo string string
  | DbFetchByNames "string list"
  | DbLogRequest string string string string
  | DbLogFeedback string string string string string string

type_synonym trace = "effect list"

text \<open>
  The answers of the outside, parameters of every handler. The HTTP answers are those of
  Rundeck and ServiceNow and \<open>groq_chat\<close> is the LLM call. The four \<open>db_\<close> fields stand
  for \<^verbatim>\<open>get_software_info\<close>, \<^verbatim>\<open>fetch_software_by_names\<close>, \<^verbatim>\<open>log_software_request\<close>
  and \<^verbatim>\<open>log_feedback\<close> of the database connector, which is not among the sources. The
  two log functions are taken to report failure through their truth value, as their call
  sites test it (\<^verbatim>\<open>if log_success\<close>, \<^verbatim>\<open>if feedback_logged\<close>) and as the audit sink of the
  specification does (\<^verbatim>\<open>append -> Ok | Error\<close>). \<^verbatim>\<open>send_activity\<close> and \<^verbatim>\<open>print\<close>
  are taken not to fail.
\<close>

record world =
  rundeck_post :: "nat \<Rightarrow> string \<Rightarrow> string option \<Rightarrow> run_body http"
  rundeck_get :: "nat \<Rightarrow> int \<Rightarrow> status_body http"
  sn_lookup :: "nat \<Rightarrow> string \<Rightarrow> lookup_body http"
  sn_patch :: "nat \<Rightarrow> string \<Rightarrow> string \<Rightarrow> patch_body http"
  sn_create :: "nat \<Rightarrow> dict \<Rightarrow> create_body http"
  groq_chat :: "nat \<Rightarrow> string \<Rightarrow> llm_reply"
  db_software_info :: "nat \<Rightarrow> string \<Rightarrow> string \<Rightarrow> software_info"
  db_fetch_by_names :: "nat \<Rightarrow> string list \<Rightarrow> catalog"
  db_log_request :: "nat \<Rightarrow> string \<Rightarrow> string \<Rightarrow> string \<Rightarrow> string \<Rightarrow> bool"
  db_log_feedback :: "nat \<Rightarrow> string \<Rightarrow> string \<Rightarrow> string \<Rightarrow> string \<Rightarrow> string \<Rightarrow> string \<Rightarrow> bool"

subsection \<open>\<^verbatim>\<open>rundeck.py\<close>\<close>

text \<open>\<^verbatim>\<open>run_rundeck_job(app_name, version)\<close>: the version option is sent only when the
  version is truthy; status 200 returns \<^verbatim>\<open>data["id"]\<close>, any other status prints and returns
  \<^verbatim>\<open>None\<close>. Nothing is caught.\<close>

definition run_rundeck_job ::
  "world \<Rightarrow> string \<Rightarrow> string \<Rightarrow> trace \<Rightarrow> int option result \<times> trace" where
  "run_rundeck_job w app_name version tr =
     (let options = (if truthy version then Some version else None);
          tr1 = tr @ [RundeckRun app_name options]
      in case rundeck_post w (length tr) app_name options of
           HttpRaise e \<Rightarrow> (Raise e, tr1)
         | HttpResp status_code body \<Rightarrow>
             if status_code = 200 then
               (case body of
                  RunBodyInvalid \<Rightarrow> (Raise JSONDecodeError, tr1)
                | RunBodyNoId \<Rightarrow> (Raise (KeyError ''id''), tr1)
                | RunBodyId i \<Rightarrow> (Return (Some i), tr1))
             else (Return None, tr1 @ [Print (PrintTriggerFailed status_code)]))"

text \<open>\<^verbatim>\<open>check_job_status(execution_id)\<close>: \<^verbatim>\<open>while True\<close>, one status request per round;
  a 200 answer with status succeeded, failed or aborted returns it, any other 200 answer
  sleeps 5 seconds and goes round again, a non-200 answer returns \<^verbatim>\<open>"error"\<close>.\<close>

partial_function (option) check_job_status ::
  "world \<Rightarrow> int \<Rightarrow> trace \<Rightarrow> (string result \<times> trace) option" where
  "check_job_status w execution_id tr =
     (let tr1 = tr @ [RundeckGet execution_id]
      in case rundeck_get w (length tr) execution_id of
           HttpRaise e \<Rightarrow> Some (Raise e, tr1)
         | HttpResp status_code body \<Rightarrow>
             if status_code = 200 then
               (case body of
                  StatusBodyInvalid \<Rightarrow> Some (Raise JSONDecodeError, tr1)
                | StatusBodyNoStatus \<Rightarrow> Some (Raise (KeyError ''status''), tr1)
                | StatusBodyStatus status \<Rightarrow>
                    let tr2 = tr1 @ [Print (PrintJobStatus status)]
                    in if status \<in> set [''succeeded'', ''failed'', ''aborted'']
                       then Some (Return status, tr2)
                       else check_job_status w execution_id (tr2 @ [Sleep 5]))
             else Some (Return ''error'', tr1))"

declare check_job_status.simps [code]

subsection \<open>ServiceNow (\<^verbatim>\<open>bot.py\<close>, static methods)\<close>

text \<open>\<^verbatim>\<open>raise_for_status()\<close> of the HTTP client raises unless the status is a 2xx.\<close>

definition is_success :: "nat \<Rightarrow> bool" where
  "is_success status_code = (200 \<le> status_code \<and> status_code < 300)"

definition state_map :: dict where
  "state_map = [(''new'', ''1''), (''in progress'', ''2''), (''closed'', ''7''), (''cancelled'', ''8'')]"

text \<open>
  \<^verbatim>\<open>update_incident_state_sn(incident_number, new_state)\<close>. The whole body is inside
  \<^verbatim>\<open>try\<close>: every exception is printed and returned as \<^verbatim>\<open>{"error": str(e)}\<close>. The
  incident is looked up first; only then is the target state mapped.
\<close>

definition update_incident_state_sn ::
  "world \<Rightarrow> string \<Rightarrow> string \<Rightarrow> trace \<Rightarrow> update_result \<times> trace" where
  "update_incident_state_sn w incident_number new_state tr =
     (let tr1 = tr @ [Print (PrintUpdating incident_number new_state)];
          tr2 = tr1 @ [SnLookup incident_number];
          failed = (\<lambda>e t. (UpdError (UpdateException e), t @ [Print (PrintUpdateError e)]))
      in case sn_lookup w (length tr1) incident_number of
           HttpRaise e \<Rightarrow> failed e tr2
         | HttpResp lookup_code lookup \<Rightarrow>
             if \<not> is_success lookup_code then failed (HTTPStatusError lookup_code) tr2
             else
               (case lookup of
                  LookupBodyInvalid \<Rightarrow> failed JSONDecodeError tr2
                | LookupBody results \<Rightarrow>
                    (case results of
                       [] \<Rightarrow> (UpdError (IncidentNotFound incident_number), tr2)
                     | row # _ \<Rightarrow>
                         (case row of
                            None \<Rightarrow> failed (KeyError ''sys_id'') tr2
                          | Some sys_id \<Rightarrow>
                              (case map_of state_map (lower new_state) of
                                 None \<Rightarrow> (UpdError (InvalidState new_state), tr2)
                               | Some mapped_state \<Rightarrow>
                                   if \<not> truthy mapped_state
                                   then (UpdError (InvalidState new_state), tr2)
                                   else
                                     (let tr3 = tr2 @ [SnPatch sys_id mapped_state]
                                      in case sn_patch w (length tr2) sys_id mapped_state of
                                           HttpRaise e \<Rightarrow> failed e tr3
                                         | HttpResp update_code update \<Rightarrow>
                                             if \<not> is_success update_code
                                             then failed (HTTPStatusError update_code) tr3
                                             else
                                               (case update of
                                                  PatchBodyInvalid \<Rightarrow> failed JSONDecodeError tr3
                                                | PatchBody d \<Rightarrow> (UpdSuccess d, tr3))))))))"

text \<open>
  \<^verbatim>\<open>create_incident_direct(incident_data)\<close>: the caller defaults to Guest; every
  exception (also the \<^verbatim>\<open>.get\<close> on a value that is no dictionary) is printed and turned
  into \<^verbatim>\<open>None\<close>.
\<close>

definition create_incident_direct ::
  "world \<Rightarrow> incident_json \<Rightarrow> trace \<Rightarrow> create_json option \<times> trace" where
  "create_incident_direct w incident_data tr =
     (let tr1 = tr @ [Print PrintCreating];
          failed = (\<lambda>e t. (None, t @ [Print (PrintCreateError e)]))
      in case incident_data of
           JNonObject \<Rightarrow> failed AttributeError tr1
         | JObject d \<Rightarrow>
             (let d1 = (if \<not> truthy (dict_get d ''caller'' [])
                        then dict_set d ''caller'' ''Guest'' else d);
                  tr2 = tr1 @ [SnCreate d1]
              in case sn_create w (length tr1) d1 of
                   HttpRaise e \<Rightarrow> failed e tr2
                 | HttpResp status_code body \<Rightarrow>
                     if \<not> is_success status_code then failed (HTTPStatusError status_code) tr2
                     else
                       (let tr3 = tr2 @ [Print PrintCreated]
                        in case body of
                             CreateBodyInvalid \<Rightarrow> failed JSONDecodeError tr3
                           | CreateBody j \<Rightarrow> (Some j, tr3))))"

text \<open>
  \<^verbatim>\<open>extract_incident_data(user_input)\<close>: the LLM call is not guarded; only a reply that
  is not JSON is caught and replaced by the default incident data.
\<close>

definition extract_incident_data ::
  "world \<Rightarrow> string \<Rightarrow> trace \<Rightarrow> incident_json result \<times> trace" where
  "extract_incident_data w user_input tr =
     (let tr1 = tr @ [GroqChat user_input]
      in case groq_chat w (length tr) user_input of
           LlmRaise e \<Rightarrow> (Raise e, tr1)
         | LlmJson j \<Rightarrow> (Return j, tr1 @ [Print PrintRawLLM])
         | LlmNotJson \<Rightarrow>
             (Return (JObject [(''short_description'', user_input), (''description'', user_input),
                               (''category'', ''Software''), (''caller'', ''Guest'')]),
              tr1 @ [Print PrintRawLLM, Print PrintLLMNotJson]))"

subsection \<open>\<^verbatim>\<open>card_builder.py\<close>\<close>

definition build_software_card :: "string \<Rightarrow> string list \<Rightarrow> card" where
  "build_software_card app_name versions = SoftwareCard app_name versions"

definition build_admin_approval_card :: "dict \<Rightarrow> card" where
  "build_admin_approval_card approval_data =
     AdminApprovalCard
       [(''incident_number'', dict_get approval_data ''incident_number'' ''N/A''),
        (''software_name'', dict_get approval_data ''software_name'' ''Unknown''),
        (''version'', dict_get approval_data ''version'' ''N/A''),
        (''requester'', dict_get approval_data ''requester'' ''Unknown User'')]"

definition build_feedback_card :: "string \<Rightarrow> string \<Rightarrow> string \<Rightarrow> string \<Rightarrow> card" where
  "build_feedback_card incident_number software_name version installation_status =
     FeedbackCard incident_number software_name version installation_status"

subsection \<open>The bot (\<^verbatim>\<open>class MyBot\<close>)\<close>

text \<open>The only state the bot keeps between turns: the two attributes set in
  \<^verbatim>\<open>__init__\<close>. There is no per-request record and no request state.\<close>

record bot =
  is_admin_mode :: bool
  pending_approval :: dict

definition init_bot :: bot where
  "init_bot = \<lparr>is_admin_mode = False, pending_approval = []\<rparr>"

definition reset_admin_mode :: "bot \<Rightarrow> bot" where
  "reset_admin_mode b = b\<lparr>is_admin_mode := False, pending_approval := []\<rparr>"

definition switch_to_admin_mode :: "dict \<Rightarrow> bot \<Rightarrow> trace \<Rightarrow> bot \<times> trace" where
  "switch_to_admin_mode approval_data b tr =
     (b\<lparr>is_admin_mode := True, pending_approval := approval_data\<rparr>,
      tr @ [Send MsgSwitchingToAdmin, Send MsgAdminNotification,
            SendCard (build_admin_approval_card approval_data)])"

definition send_feedback_card :: "string \<Rightarrow> string \<Rightarrow> string \<Rightarrow> string \<Rightarrow> trace \<Rightarrow> trace" where
  "send_feedback_card incident_number software_name version installation_status tr =
     tr @ [Send MsgFeedbackPrompt,
           SendCard (build_feedback_card incident_number software_name version installation_status)]"

text \<open>\<^verbatim>\<open>if not execution_id\<close>: \<^verbatim>\<open>None\<close> and the number 0 are falsy.\<close>

definition falsy_id :: "int option \<Rightarrow> bool" where
  "falsy_id execution_id = (case execution_id of None \<Rightarrow> True | Some i \<Rightarrow> i = 0)"

text \<open>
  \<^verbatim>\<open>_handle_admin_approval(turn_context, card_data)\<close>. The handler reads neither
  \<open>is_admin_mode\<close> nor \<open>pending_approval\<close>. On a failed trigger it sends the feedback
  card and returns before the reset of the admin mode. The result of the two
  \<^verbatim>\<open>log_software_request\<close> calls and of the ticket updates after the job is not looked at.
\<close>

definition handle_admin_approval ::
  "world \<Rightarrow> dict \<Rightarrow> bot \<Rightarrow> trace \<Rightarrow> (unit result \<times> bot \<times> trace) option" where
  "handle_admin_approval w card_data b tr =
     (let incident_number = dict_get card_data ''incident_number'' [];
          software_name = dict_get card_data ''software_name'' [];
          version = dict_get card_data ''version'' [];
          (update_result, tr1) = update_incident_state_sn w incident_number ''in progress'' tr;
          tr2 = tr1 @ [Send (if upd_success update_result
                             then MsgSnUpdated incident_number ''In Progress''
                             else MsgSnUpdateFailed update_result)];
          tr3 = tr2 @ [Send (MsgApproved incident_number software_name version)];
          tr4 = tr3 @ [DbLogRequest incident_number software_name version
                         ''Admin approved the software installation request'']
      in case run_rundeck_job w software_name version tr4 of
           (Raise e, tr5) \<Rightarrow> Some (Raise e, b, tr5)
         | (Return execution_id, tr5) \<Rightarrow>
             (case (if falsy_id execution_id then None else execution_id) of
                None \<Rightarrow>
                  Some (Return (), b,
                        send_feedback_card incident_number software_name version ''failed''
                          (tr5 @ [Send MsgTriggerFailed]))
              | Some execution \<Rightarrow>
                  (case check_job_status w execution (tr5 @ [Send (MsgJobStarted execution)]) of
                     None \<Rightarrow> None
                   | Some (Raise e, tr7) \<Rightarrow> Some (Raise e, b, tr7)
                   | Some (Return final_status, tr7) \<Rightarrow>
                       (let (status_msg, installation_status, tr8) =
                              (if final_status = ''succeeded'' then
                                 (''Rundeck job succeeded, software installed'', ''success'',
                                  snd (update_incident_state_sn w incident_number ''closed'' tr7)
                                    @ [Send (MsgInstallSucceeded software_name version)])
                               else if final_status \<in> set [''failed'', ''aborted''] then
                                 (''Rundeck job '' @ final_status, ''failed'',
                                  snd (update_incident_state_sn w incident_number ''cancelled'' tr7)
                                    @ [Send (MsgInstallFailed software_name version)])
                               else
                                 (''Rundeck job error'', ''failed'', tr7 @ [Send MsgStatusUnknown]));
                            tr9 = tr8 @ [DbLogRequest incident_number software_name version status_msg];
                            tr10 = send_feedback_card incident_number software_name version
                                     installation_status tr9
                        in Some (Return (), reset_admin_mode b, tr10)))))"

text \<open>\<^verbatim>\<open>_handle_admin_rejection(turn_context, card_data)\<close>.\<close>

definition handle_admin_rejection ::
  "world \<Rightarrow> dict \<Rightarrow> bot \<Rightarrow> trace \<Rightarrow> unit result \<times> bot \<times> trace" where
  "handle_admin_rejection w card_data b tr =
     (let incident_number = dict_get card_data ''incident_number'' [];
          software_name = dict_get card_data ''software_name'' [];
          version = dict_get card_data ''version'' [];
          rejection_reason = dict_get card_data ''rejection_reason'' [];
          (update_result, tr1) = update_incident_state_sn w incident_number ''cancelled'' tr;
          tr2 = tr1 @ [Send (if upd_success update_result
                             then MsgSnUpdated incident_number ''Cancelled''
                             else MsgSnUpdateFailed update_result)];
          tr3 = tr2 @ [Send (MsgRejected incident_number software_name version
                               (if truthy rejection_reason then rejection_reason
                                else ''No reason provided''))];
          tr4 = tr3 @ [DbLogRequest incident_number software_name version
                         ''Admin rejected the request of Software Installation'']
      in (Return (), reset_admin_mode b, tr4))"

text \<open>\<^verbatim>\<open>_handle_feedback_submission\<close> and \<^verbatim>\<open>_handle_skip_feedback\<close>.\<close>

definition handle_feedback_submission ::
  "world \<Rightarrow> dict \<Rightarrow> bot \<Rightarrow> trace \<Rightarrow> unit result \<times> bot \<times> trace" where
  "handle_feedback_submission w card_data b tr =
     (let incident_number = dict_get card_data ''incident_number'' [];
          software_name = dict_get card_data ''software_name'' [];
          version = dict_get card_data ''version'' [];
          installation_status = dict_get card_data ''installation_status'' [];
          rating = dict_get card_data ''rating'' ''3'';
          feedback_comments = dict_get card_data ''feedback_comments'' [];
          feedback_logged = db_log_feedback w (length tr) incident_number software_name version
                              rating feedback_comments installation_status;
          tr1 = tr @ [DbLogFeedback incident_number software_name version rating
                        feedback_comments installation_status]
      in (Return (), b,
          tr1 @ [Send (if feedback_logged then MsgFeedbackThanks incident_number rating
                       else MsgFeedbackNotSaved)]))"

definition handle_skip_feedback ::
  "dict \<Rightarrow> bot \<Rightarrow> trace \<Rightarrow> unit result \<times> bot \<times> trace" where
  "handle_skip_feedback card_data b tr =
     (Return (), b, tr @ [Send (MsgSkipThanks (dict_get card_data ''incident_number'' []))])"

text \<open>
  The \<^verbatim>\<open>action == "install"\<close> branch of \<^verbatim>\<open>_handle_card_submission\<close>. The incident
  number is \<^verbatim>\<open>result.get("result", {}).get("number") or result.get("number") or "Unknown"\<close>.
  The approval card is sent, and the admin mode entered, only under
  \<^verbatim>\<open>if log_success\<close>.
\<close>

definition py_or_str :: "string option \<Rightarrow> string \<Rightarrow> string" where
  "py_or_str x s = (case x of None \<Rightarrow> s | Some v \<Rightarrow> if truthy v then v else s)"

text \<open>\<^verbatim>\<open>result.get("number")\<close>: \<^verbatim>\<open>None\<close> for an absent key and for \<^verbatim>\<open>null\<close>.\<close>

fun number_get :: "number_field \<Rightarrow> string option" where
  "number_get NumberAbsent = None"
| "number_get NumberNull = None"
| "number_get (NumberString s) = Some s"

text \<open>\<^verbatim>\<open>if result:\<close> on the decoded object: false only for the empty object.\<close>

definition json_truthy :: "create_json \<Rightarrow> bool" where
  "json_truthy j =
     (cj_result j \<noteq> ResultAbsent \<or> cj_number j \<noteq> NumberAbsent \<or> cj_other_keys j)"

definition incident_number_of :: "create_json \<Rightarrow> string result" where
  "incident_number_of j =
     (case cj_result j of
        ResultNonDict \<Rightarrow> Raise AttributeError
      | ResultAbsent \<Rightarrow> Return (py_or_str (py_or None (number_get (cj_number j))) ''Unknown'')
      | ResultDict n \<Rightarrow> Return (py_or_str (py_or n (number_get (cj_number j))) ''Unknown''))"

definition card_install ::
  "world \<Rightarrow> dict \<Rightarrow> bot \<Rightarrow> trace \<Rightarrow> unit result \<times> bot \<times> trace" where
  "card_install w card_data b tr =
     (let app = dict_get card_data ''app'' [];
          version = dict_get card_data ''version'' []
      in if truthy app \<and> truthy version then
           (let tr1 = tr @ [Send (MsgCreatingTicket app version)];
                tr2 = tr1 @ [DbSoftwareInfo app version]
            in case db_software_info w (length tr1) app version of
                 SwRaise e \<Rightarrow> (Raise e, b, tr2)
               | SwNone \<Rightarrow> (Raise TypeError, b, tr2)
               | SwInfo None _ \<Rightarrow> (Raise (KeyError ''name''), b, tr2)
               | SwInfo (Some name) None \<Rightarrow> (Raise (KeyError ''version''), b, tr2)
               | SwInfo (Some name) (Some sw_version) \<Rightarrow>
                   (let incident_description = ''Installation of '' @ name @ '' v'' @ sw_version
                    in if truthy incident_description then
                         (case extract_incident_data w incident_description tr2 of
                            (Raise e, tr3) \<Rightarrow> (Raise e, b, tr3)
                          | (Return incident_data, tr3) \<Rightarrow>
                              (case create_incident_direct w incident_data tr3 of
                                 (result, tr4) \<Rightarrow>
                                   (case (case result of None \<Rightarrow> None
                                          | Some j \<Rightarrow> if json_truthy j then Some j else None) of
                                      None \<Rightarrow>
                                        (Return (), b,
                                         tr4 @ [Print PrintCreateFailed, Send MsgCreateFailed])
                                    | Some j \<Rightarrow>
                                        (let tr5 = tr4 @ [Print PrintFullResponse]
                                         in case incident_number_of j of
                                              Raise e \<Rightarrow> (Raise e, b, tr5)
                                            | Return incident_number \<Rightarrow>
                                                (let tr6 = tr5 @ [Print (PrintIncidentNumber incident_number),
                                                                  Send (MsgIncidentCreated incident_number)]
                                                 in if incident_number \<noteq> ''Unknown'' then
                                                      (let status = ''User initiated the request for the Software Installation'';
                                                           log_success = db_log_request w (length tr6)
                                                                           incident_number app version status;
                                                           tr7 = tr6 @ [DbLogRequest incident_number app version status]
                                                       in if log_success then
                                                            (case switch_to_admin_mode
                                                                    [(''incident_number'', incident_number),
                                                                     (''software_name'', app),
                                                                     (''version'', version),
                                                                     (''requester'', ''Guest'')]
                                                                    b (tr7 @ [Print (PrintRequestLogged incident_number)]) of
                                                               (b', tr8) \<Rightarrow> (Return (), b', tr8))
                                                          else (Return (), b, tr7 @ [Print (PrintLogFailed incident_number)]))
                                                    else (Return (), b, tr6 @ [Print PrintCannotLog]))))))
                       else (Return (), b, tr2)))
         else (Return (), b, tr @ [Send MsgSelectVersion]))"

text \<open>
  The \<^verbatim>\<open>action == "show_versions"\<close> branch, for the string a multi-select choice set
  submits (a missing key reads as the falsy default).
\<close>

definition card_show_versions ::
  "world \<Rightarrow> dict \<Rightarrow> bot \<Rightarrow> trace \<Rightarrow> unit result \<times> bot \<times> trace" where
  "card_show_versions w card_data b tr =
     (let selected_software = dict_get card_data ''selected_software'' [];
          tr1 = tr @ [Print (PrintCardData card_data), Print (PrintSelected selected_software),
                      Print PrintSelectedType]
      in if \<not> truthy selected_software then (Return (), b, tr1 @ [Send MsgSelectSoftware])
         else
           (let software_list = (if CHR '','' \<in> set selected_software
                                 then map strip (split_comma selected_software)
                                 else [selected_software]);
                tr2 = tr1 @ [Print (PrintSoftwareList software_list)]
            in if software_list = [] then (Return (), b, tr2 @ [Send MsgSelectSoftware])
               else
                 (let catalog = db_fetch_by_names w (length tr2) software_list;
                      tr3 = tr2 @ [DbFetchByNames software_list, Print (PrintCatalog catalog)]
                  in if catalog \<noteq> [] then
                       (let tr4 = tr3 @ [Send (MsgFoundSelected (length catalog) (length software_list))];
                            tr5 = tr4 @ map (\<lambda>(app, versions). SendCard (build_software_card app versions)) catalog;
                            found_names = map (\<lambda>(name, versions). lower name) catalog;
                            missing = filter (\<lambda>name. lower name \<notin> set found_names) software_list
                        in (Return (), b,
                            if missing \<noteq> [] then tr5 @ [Send (MsgCouldntFind missing)] else tr5))
                     else (Return (), b, tr3 @ [Send (MsgNoneFound software_list)]))))"

text \<open>
  \<^verbatim>\<open>_handle_card_submission(turn_context)\<close> with \<^verbatim>\<open>card_data = turn_context.activity.value\<close>:
  the dispatch on \<^verbatim>\<open>action\<close>, inside \<^verbatim>\<open>try\<close>; any exception is printed and answered
  with the error message. The approval handler awaits the polling loop, so the whole
  handler may not return.
\<close>

definition handle_card_submission ::
  "world \<Rightarrow> dict \<Rightarrow> bot \<Rightarrow> trace \<Rightarrow> (bot \<times> trace) option" where
  "handle_card_submission w card_data b tr =
     (let action = dict_get card_data ''action'' [];
          body =
            (if action = ''install'' then Some (card_install w card_data b tr)
             else if action = ''admin_approve'' then handle_admin_approval w card_data b tr
             else if action = ''admin_reject'' then Some (handle_admin_rejection w card_data b tr)
             else if action = ''submit_feedback'' then Some (handle_feedback_submission w card_data b tr)
             else if action = ''skip_feedback'' then Some (handle_skip_feedback card_data b tr)
             else if action = ''show_versions'' then Some (card_show_versions w card_data b tr)
             else Some (Return (), b, tr))
      in case body of
           None \<Rightarrow> None
         | Some (Return u, b', tr') \<Rightarrow> Some (b', tr')
         | Some (Raise e, b', tr') \<Rightarrow> Some (b', tr' @ [Print (PrintCardError e), Send MsgError]))"

text \<open>Successive card submissions of one conversation: each turn starts from the bot and
  the trace the turn before left.\<close>

fun run_cards :: "world \<Rightarrow> dict list \<Rightarrow> bot \<Rightarrow> trace \<Rightarrow> (bot \<times> trace) option" where
  "run_cards w [] b tr = Some (b, tr)"
| "run_cards w (card_data # rest) b tr =
     (case handle_card_submission w card_data b tr of
        None \<Rightarrow> None
      | Some (b', tr') \<Rightarrow> run_cards w rest b' tr')"

subsection \<open>Reading a trace\<close>

fun is_trigger :: "effect \<Rightarrow> bool" where
  "is_trigger (RundeckRun app version) = True"
| "is_trigger e = False"

fun is_poll :: "effect \<Rightarrow> bool" where
  "is_poll (RundeckGet execution) = True"
| "is_poll e = False"

fun is_patch :: "effect \<Rightarrow> bool" where
  "is_patch (SnPatch sys_id mapped_state) = True"
| "is_patch e = False"

fun is_feedback_card :: "effect \<Rightarrow> bool" where
  "is_feedback_card (SendCard (FeedbackCard incident software version status)) = True"
| "is_feedback_card e = False"

text \<open>The job triggers, status polls, ticket updates and cards of a trace, in order.\<close>

definition job_triggers :: "trace \<Rightarrow> effect list" where
  "job_triggers tr = filter is_trigger tr"

definition status_polls :: "trace \<Rightarrow> effect list" where
  "status_polls tr = filter is_poll tr"

definition ticket_patches :: "trace \<Rightarrow> effect list" where
  "ticket_patches tr = filter is_patch tr"

definition feedback_cards :: "trace \<Rightarrow> effect list" where
  "feedback_cards tr = filter is_feedback_card tr"

text \<open>What a run of the approval handler returns and does, without the bot it leaves.\<close>

definition effects_of :: "(unit result \<times> bot \<times> trace) option \<Rightarrow> (unit result \<times> trace) option" where
  "effects_of res = map_option (\<lambda>(r, b, tr). (r, tr)) res"

text \<open>The effects of \<open>n\<close> rounds of the polling loop that were answered running.\<close>

definition running_rounds :: "nat \<Rightarrow> int \<Rightarrow> trace" where
  "running_rounds n execution_id =
     concat (replicate n [RundeckGet execution_id, Print (PrintJobStatus ''running''), Sleep 5])"

text \<open>The effects one call of \<open>update_incident_state_sn\<close> can add, and those one call of
  \<open>check_job_status\<close> can add.\<close>

fun is_update_effect :: "effect \<Rightarrow> bool" where
  "is_update_effect (Print (PrintUpdating incident state)) = True"
| "is_update_effect (Print (PrintUpdateError e)) = True"
| "is_update_effect (SnLookup incident) = True"
| "is_update_effect (SnPatch sys_id mapped_state) = True"
| "is_update_effect e = False"

fun is_poll_effect :: "effect \<Rightarrow> bool" where
  "is_poll_effect (RundeckGet execution) = True"
| "is_poll_effect (Print (PrintJobStatus status)) = True"
| "is_poll_effect (Sleep seconds) = True"
| "is_poll_effect e = False"

subsection \<open>Scenarios\<close>

text \<open>A world in which every external system answers well: the incident INC001 is created
  and found, the job is started as execution 42 and reported succeeded at the first poll,
  and every log write succeeds.\<close>

definition w_happy :: world where
  "w_happy =
     \<lparr>rundeck_post = (\<lambda>t app version. HttpResp 200 (RunBodyId 42)),
      rundeck_get = (\<lambda>t execution. HttpResp 200 (StatusBodyStatus ''succeeded'')),
      sn_lookup = (\<lambda>t number. HttpResp 200 (LookupBody [Some ''sys1''])),
      sn_patch = (\<lambda>t sys_id state. HttpResp 200 (PatchBody ''ok'')),
      sn_create = (\<lambda>t d. HttpResp 201
                     (CreateBody \<lparr>cj_result = ResultDict (Some ''INC001''), cj_number = NumberAbsent,
                                  cj_other_keys = False\<rparr>)),
      groq_chat = (\<lambda>t prompt. LlmNotJson),
      db_software_info = (\<lambda>t app version. SwInfo (Some app) (Some version)),
      db_fetch_by_names = (\<lambda>t names. []),
      db_log_request = (\<lambda>t incident software version status. True),
      db_log_feedback = (\<lambda>t incident software version rating comments status. True)\<rparr>"

text \<open>The same world, except that: the job never leaves the status running; the trigger is
  answered with status 500; the status query is answered with status 503, at once or after
  two polls answered running; the job is reported aborted; the log write fails; no incident matches the number.\<close>

definition w_always_running :: world where
  "w_always_running =
     w_happy\<lparr>rundeck_get := (\<lambda>t execution. HttpResp 200 (StatusBodyStatus ''running''))\<rparr>"

definition w_trigger_fails :: world where
  "w_trigger_fails = w_happy\<lparr>rundeck_post := (\<lambda>t app version. HttpResp 500 RunBodyInvalid)\<rparr>"

definition w_poll_error :: world where
  "w_poll_error = w_happy\<lparr>rundeck_get := (\<lambda>t execution. HttpResp 503 StatusBodyInvalid)\<rparr>"

definition w_poll_error_later :: world where
  "w_poll_error_later =
     w_happy\<lparr>rundeck_get := (\<lambda>t execution. if t < 14 then HttpResp 200 (StatusBodyStatus ''running'')
                                             else HttpResp 503 StatusBodyInvalid)\<rparr>"

definition w_job_aborted :: world where
  "w_job_aborted =
     w_happy\<lparr>rundeck_get := (\<lambda>t execution. HttpResp 200 (StatusBodyStatus ''aborted''))\<rparr>"

definition w_log_fails :: world where
  "w_log_fails = w_happy\<lparr>db_log_request := (\<lambda>t incident software version status. False)\<rparr>"

definition w_no_incident :: world where
  "w_no_incident = w_happy\<lparr>sn_lookup := (\<lambda>t number. HttpResp 200 (LookupBody []))\<rparr>"

text \<open>The cards of one request: the install selection, and the two submissions of the
  approval card that \<open>build_admin_approval_card\<close> makes for it.\<close>

definition install_card :: dict where
  "install_card = [(''action'', ''install''), (''app'', ''zoom''), (''version'', ''5.0'')]"

definition approve_card :: dict where
  "approve_card =
     [(''action'', ''admin_approve''), (''incident_number'', ''INC001''),
      (''software_name'', ''zoom''), (''version'', ''5.0''), (''requester'', ''Guest'')]"

definition reject_card :: dict where
  "reject_card =
     [(''action'', ''admin_reject''), (''incident_number'', ''INC001''),
      (''software_name'', ''zoom''), (''version'', ''5.0''), (''requester'', ''Guest''),
      (''rejection_reason'', ''not approved for this env'')]"

text \<open>The bot while the approval of that request is pending.\<close>

definition pending_bot :: bot where
  "pending_bot =
     \<lparr>is_admin_mode = True,
      pending_approval = [(''incident_number'', ''INC001''), (''software_name'', ''zoom''),
                          (''version'', ''5.0''), (''requester'', ''Guest'')]\<rparr>"

text \<open>The trace of the install submission of \<open>install_card\<close> in these worlds, from the
  empty trace up to the created incident; and the trace of the approval of
  \<open>approve_card\<close> in \<open>w_happy\<close>.\<close>

definition created_trace :: trace where
  "created_trace =
     [Send (MsgCreatingTicket ''zoom'' ''5.0''),
      DbSoftwareInfo ''zoom'' ''5.0'',
      GroqChat ''Installation of zoom v5.0'',
      Print PrintRawLLM,
      Print PrintLLMNotJson,
      Print PrintCreating,
      SnCreate [(''short_description'', ''Installation of zoom v5.0''),
                (''description'', ''Installation of zoom v5.0''),
                (''category'', ''Software''), (''caller'', ''Guest'')],
      Print PrintCreated]"

definition approved_run :: trace where
  "approved_run =
     [Print (PrintUpdating ''INC001'' ''in progress''),
      SnLookup ''INC001'',
      SnPatch ''sys1'' ''2'',
      Send (MsgSnUpdated ''INC001'' ''In Progress''),
      Send (MsgApproved ''INC001'' ''zoom'' ''5.0''),
      DbLogRequest ''INC001'' ''zoom'' ''5.0'' ''Admin approved the software installation request'',
      RundeckRun ''zoom'' (Some ''5.0''),
      Send (MsgJobStarted 42),
      RundeckGet 42,
      Print (PrintJobStatus ''succeeded''),
      Print (PrintUpdating ''INC001'' ''closed''),
      SnLookup ''INC001'',
      SnPatch ''sys1'' ''7'',
      Send (MsgInstallSucceeded ''zoom'' ''5.0''),
      DbLogRequest ''INC001'' ''zoom'' ''5.0'' ''Rundeck job succeeded, software installed'',
      Send MsgFeedbackPrompt,
      SendCard (FeedbackCard ''INC001'' ''zoom'' ''5.0'' ''success'')]"

subsection \<open>The fields of a submitted card\<close>

text \<open>Short names for what the handlers read from \<open>card_data\<close>, each with the default of
  its \<^verbatim>\<open>card_data.get\<close>.\<close>

abbreviation incident_of :: "dict \<Rightarrow> string" where
  "incident_of card_data \<equiv> dict_get card_data ''incident_number'' []"

abbreviation software_of :: "dict \<Rightarrow> string" where
  "software_of card_data \<equiv> dict_get card_data ''software_name'' []"

abbreviation version_of :: "dict \<Rightarrow> string" where
  "version_of card_data \<equiv> dict_get card_data ''version'' []"

abbreviation app_of :: "dict \<Rightarrow> string" where
  "app_of card_data \<equiv> dict_get card_data ''app'' []"

text \<open>The run request, the log write and the feedback card made from these fields.\<close>

abbreviation log_of :: "dict \<Rightarrow> string \<Rightarrow> effect" where
  "log_of card_data status \<equiv>
     DbLogRequest (incident_of card_data) (software_of card_data) (version_of card_data) status"

abbreviation feedback_card_of :: "dict \<Rightarrow> string \<Rightarrow> effect" where
  "feedback_card_of card_data installation_status \<equiv>
     SendCard (FeedbackCard (incident_of card_data) (software_of card_data) (version_of card_data)
                 installation_status)"

subsection \<open>The approval handler up to the trigger\<close>

text \<open>The trace after the first steps of \<open>handle_admin_approval\<close>: the ticket update to
  in progress, the two messages and the approval log; and the version option that
  \<open>run_rundeck_job\<close> sends. Both restate parts of the handlers above, to name them in
  the properties.\<close>

definition approved_trace :: "world \<Rightarrow> dict \<Rightarrow> trace \<Rightarrow> trace" where
  "approved_trace w card_data tr =
     (let incident_number = dict_get card_data ''incident_number'' [];
          software_name = dict_get card_data ''software_name'' [];
          version = dict_get card_data ''version'' [];
          (update_result, tr1) = update_incident_state_sn w incident_number ''in progress'' tr;
          tr2 = tr1 @ [Send (if upd_success update_result
                             then MsgSnUpdated incident_number ''In Progress''
                             else MsgSnUpdateFailed update_result)];
          tr3 = tr2 @ [Send (MsgApproved incident_number software_name version)];
          tr4 = tr3 @ [DbLogRequest incident_number software_name version
                         ''Admin approved the software installation request'']
      in tr4)"

definition version_option :: "string \<Rightarrow> string option" where
  "version_option version = (if truthy version then Some version else None)"

abbreviation run_request :: "dict \<Rightarrow> effect" where
  "run_request card_data \<equiv>
     RundeckRun (software_of card_data) (version_option (version_of card_data))"

text \<open>The trace of the approval of \<open>approve_card\<close>, from the empty trace, when the job
  is started as execution 42 and the first status poll reports the given final status.\<close>

definition polled_trace :: "world \<Rightarrow> string \<Rightarrow> trace" where
  "polled_trace w status =
     approved_trace w approve_card [] @
     [RundeckRun ''zoom'' (Some ''5.0''), Send (MsgJobStarted 42), RundeckGet 42,
      Print (PrintJobStatus status)]"

section \<open>Properties\<close>

subsection \<open>What the ticket update and the polling loop add to the trace\<close>

lemma update_extends:
  "\<exists>r added. update_incident_state_sn w n s tr = (r, tr @ added) \<and> list_all is_update_effect added"
  by (simp add: update_incident_state_sn_def Let_def
           split: http.split lookup_body.split list.split option.split patch_body.split)

lemma update_effect_not_others:
  assumes "is_update_effect e"
  shows "\<not> is_trigger e" "\<not> is_poll e" "\<not> is_feedback_card e"
    "e \<noteq> Print (PrintJobStatus st)"
  using assms by (induction e rule: is_update_effect.induct; simp)+

lemma poll_effect_not_others:
  assumes "is_poll_effect e"
  shows "\<not> is_trigger e" "\<not> is_patch e" "\<not> is_feedback_card e"
  using assms by (induction e rule: is_poll_effect.induct; simp)+

lemma filter_none: "list_all P xs \<Longrightarrow> (\<And>x. P x \<Longrightarrow> \<not> Q x) \<Longrightarrow> filter Q xs = []"
  by (induction xs) auto

lemma update_added_filters:
  assumes "list_all is_update_effect added"
  shows "job_triggers added = []" "status_polls added = []" "feedback_cards added = []"
    "Print (PrintJobStatus st) \<notin> set added"
  using assms update_effect_not_others
  by (auto simp: job_triggers_def status_polls_def feedback_cards_def
        list_all_iff filter_empty_conv)

lemma poll_added_filters:
  assumes "list_all is_poll_effect added"
  shows "job_triggers added = []" "ticket_patches added = []" "feedback_cards added = []"
  using assms poll_effect_not_others
  by (auto simp: job_triggers_def ticket_patches_def feedback_cards_def
        list_all_iff filter_empty_conv)

text \<open>A call of the polling loop that returns has added only status requests, status lines
  and sleeps; it has printed a final status exactly when it returns that status; and it
  returns nothing but succeeded, failed, aborted or error.\<close>

lemma check_job_status_returns:
  assumes ret: "check_job_status w e tr = Some res"
  shows "\<exists>added. snd res = tr @ added \<and> list_all is_poll_effect added \<and>
           (\<forall>s \<in> set [''succeeded'', ''failed'', ''aborted''].
              (Print (PrintJobStatus s) \<in> set added) = (fst res = Return s)) \<and>
           (\<forall>x. fst res = Return x \<longrightarrow> x \<in> set [''succeeded'', ''failed'', ''aborted'', ''error''])"
proof (rule check_job_status.raw_induct[where P = "\<lambda>w e tr res. \<exists>added. snd res = tr @ added \<and> list_all is_poll_effect added \<and>
           (\<forall>s \<in> set [''succeeded'', ''failed'', ''aborted''].
              (Print (PrintJobStatus s) \<in> set added) = (fst res = Return s)) \<and>
           (\<forall>x. fst res = Return x \<longrightarrow> x \<in> set [''succeeded'', ''failed'', ''aborted'', ''error''])", OF _ ret])
  fix cjs :: "world \<Rightarrow> int \<Rightarrow> trace \<Rightarrow> (string result \<times> trace) option" and w e tr res
  assume IH: "\<And>w e tr res. cjs w e tr = Some res \<Longrightarrow>
     \<exists>added. snd res = tr @ added \<and> list_all is_poll_effect added \<and>
           (\<forall>s \<in> set [''succeeded'', ''failed'', ''aborted''].
              (Print (PrintJobStatus s) \<in> set added) = (fst res = Return s)) \<and>
           (\<forall>x. fst res = Return x \<longrightarrow> x \<in> set [''succeeded'', ''failed'', ''aborted'', ''error''])"
   and step: "(let tr1 = tr @ [RundeckGet e]
      in case rundeck_get w (length tr) e of
           HttpRaise e \<Rightarrow> Some (Raise e, tr1)
         | HttpResp status_code body \<Rightarrow>
             if status_code = 200 then
               (case body of
                  StatusBodyInvalid \<Rightarrow> Some (Raise JSONDecodeError, tr1)
                | StatusBodyNoStatus \<Rightarrow> Some (Raise (KeyError ''status''), tr1)
                | StatusBodyStatus status \<Rightarrow>
                    let tr2 = tr1 @ [Print (PrintJobStatus status)]
                    in if status \<in> set [''succeeded'', ''failed'', ''aborted'']
                       then Some (Return status, tr2)
                       else cjs w e (tr2 @ [Sleep 5]))
             else Some (Return ''error'', tr1)) = Some res"
  let ?Q = "\<lambda>tr res. \<exists>added. snd res = tr @ added \<and> list_all is_poll_effect added \<and>
           (\<forall>s \<in> set [''succeeded'', ''failed'', ''aborted''].
              (Print (PrintJobStatus s) \<in> set added) = (fst res = Return s)) \<and>
           (\<forall>x. fst res = Return x \<longrightarrow> x \<in> set [''succeeded'', ''failed'', ''aborted'', ''error''])"
  show "?Q tr res"
  proof (cases "rundeck_get w (length tr) e")
    case (HttpRaise x)
    with step have "res = (Raise x, tr @ [RundeckGet e])" by (simp add: Let_def)
    then show ?thesis by simp
  next
    case (HttpResp code body)
    show ?thesis
    proof (cases "code = 200")
      case False
      with step HttpResp have "res = (Return ''error'', tr @ [RundeckGet e])" by (simp add: Let_def)
      then show ?thesis by simp
    next
      case True
      show ?thesis
      proof (cases body)
        case StatusBodyInvalid
        with step HttpResp True have "res = (Raise JSONDecodeError, tr @ [RundeckGet e])" by (simp add: Let_def)
        then show ?thesis by simp
      next
        case StatusBodyNoStatus
        with step HttpResp True have "res = (Raise (KeyError ''status''), tr @ [RundeckGet e])" by (simp add: Let_def)
        then show ?thesis by simp
      next
        case (StatusBodyStatus status)
        show ?thesis
        proof (cases "status \<in> set [''succeeded'', ''failed'', ''aborted'']")
          case True
          with step HttpResp \<open>code = 200\<close> StatusBodyStatus
          have "res = (Return status, tr @ [RundeckGet e, Print (PrintJobStatus status)])"
            by (simp add: Let_def)
          with True show ?thesis by auto
        next
          case False
          with step HttpResp \<open>code = 200\<close> StatusBodyStatus
          have "cjs w e (tr @ [RundeckGet e, Print (PrintJobStatus status), Sleep 5]) = Some res"
            by (simp add: Let_def)
          from IH[OF this] obtain added where
            a: "snd res = (tr @ [RundeckGet e, Print (PrintJobStatus status), Sleep 5]) @ added"
               "list_all is_poll_effect added"
               "\<forall>s \<in> set [''succeeded'', ''failed'', ''aborted''].
                   (Print (PrintJobStatus s) \<in> set added) = (fst res = Return s)"
               "\<forall>x. fst res = Return x \<longrightarrow> x \<in> set [''succeeded'', ''failed'', ''aborted'', ''error'']"
            by blast
          let ?added = "[RundeckGet e, Print (PrintJobStatus status), Sleep 5] @ added"
          have "snd res = tr @ ?added" using a(1) by simp
          moreover have "list_all is_poll_effect ?added" using a(2) by simp
          moreover have "\<forall>s \<in> set [''succeeded'', ''failed'', ''aborted''].
                   (Print (PrintJobStatus s) \<in> set ?added) = (fst res = Return s)"
            using a(3) False by auto
          ultimately show ?thesis using a(4) by blast
        qed
      qed
    qed
  qed
qed

text \<open>When no status request is ever answered with a final status, the loop does not return.\<close>

lemma check_job_status_diverges:
  assumes running: "\<forall>t. \<exists>s. rundeck_get w t e = HttpResp 200 (StatusBodyStatus s) \<and>
                      s \<notin> set [''succeeded'', ''failed'', ''aborted'']"
  shows "check_job_status w e tr = None"
proof (cases "check_job_status w e tr")
  case None
  then show ?thesis .
next
  case (Some res)
  have "\<not> (\<forall>t. \<exists>s. rundeck_get w t e = HttpResp 200 (StatusBodyStatus s) \<and>
                      s \<notin> set [''succeeded'', ''failed'', ''aborted''])"
  proof (rule check_job_status.raw_induct[where P = "\<lambda>w e tr res.
           \<not> (\<forall>t. \<exists>s. rundeck_get w t e = HttpResp 200 (StatusBodyStatus s) \<and>
                      s \<notin> set [''succeeded'', ''failed'', ''aborted''])", OF _ Some])
    fix cjs :: "world \<Rightarrow> int \<Rightarrow> trace \<Rightarrow> (string result \<times> trace) option" and w e tr res
    assume IH: "\<And>w e tr res. cjs w e tr = Some res \<Longrightarrow>
                  \<not> (\<forall>t. \<exists>s. rundeck_get w t e = HttpResp 200 (StatusBodyStatus s) \<and>
                      s \<notin> set [''succeeded'', ''failed'', ''aborted''])"
      and step: "(let tr1 = tr @ [RundeckGet e]
        in case rundeck_get w (length tr) e of
             HttpRaise e \<Rightarrow> Some (Raise e, tr1)
           | HttpResp status_code body \<Rightarrow>
               if status_code = 200 then
                 (case body of
                    StatusBodyInvalid \<Rightarrow> Some (Raise JSONDecodeError, tr1)
                  | StatusBodyNoStatus \<Rightarrow> Some (Raise (KeyError ''status''), tr1)
                  | StatusBodyStatus status \<Rightarrow>
                      let tr2 = tr1 @ [Print (PrintJobStatus status)]
                      in if status \<in> set [''succeeded'', ''failed'', ''aborted'']
                         then Some (Return status, tr2)
                         else cjs w e (tr2 @ [Sleep 5]))
               else Some (Return ''error'', tr1)) = Some res"
    show "\<not> (\<forall>t. \<exists>s. rundeck_get w t e = HttpResp 200 (StatusBodyStatus s) \<and>
                      s \<notin> set [''succeeded'', ''failed'', ''aborted''])"
    proof
      assume all: "\<forall>t. \<exists>s. rundeck_get w t e = HttpResp 200 (StatusBodyStatus s) \<and>
                      s \<notin> set [''succeeded'', ''failed'', ''aborted'']"
      then obtain s where s: "rundeck_get w (length tr) e = HttpResp 200 (StatusBodyStatus s)"
        "s \<notin> set [''succeeded'', ''failed'', ''aborted'']" by blast
      with step have "cjs w e (tr @ [RundeckGet e, Print (PrintJobStatus s), Sleep 5]) = Some res"
        by (simp add: Let_def)
      from IH[OF this] all show False by blast
    qed
  qed
  with running show ?thesis by blast
qed

lemma check_job_status_round:
  assumes "rundeck_get w (length tr) e = HttpResp 200 (StatusBodyStatus s)"
    and "s \<notin> set [''succeeded'', ''failed'', ''aborted'']"
  shows "check_job_status w e tr =
         check_job_status w e (tr @ [RundeckGet e, Print (PrintJobStatus s), Sleep 5])"
  using assms by (subst check_job_status.simps) (simp add: Let_def)

lemma check_job_status_final:
  assumes "rundeck_get w (length tr) e = HttpResp 200 (StatusBodyStatus s)"
    and "s \<in> set [''succeeded'', ''failed'', ''aborted'']"
  shows "check_job_status w e tr = Some (Return s, tr @ [RundeckGet e, Print (PrintJobStatus s)])"
  using assms by (subst check_job_status.simps) (simp add: Let_def)

text \<open>The loop goes through any number of rounds: after \<open>n\<close> polls answered running and one
  answered with a final status it returns that status, having polled \<open>n + 1\<close> times.\<close>

lemma length_running_rounds: "length (running_rounds n e) = 3 * n"
  by (induction n) (simp_all add: running_rounds_def)

lemma running_rounds_Suc:
  "running_rounds (Suc n) e =
     [RundeckGet e, Print (PrintJobStatus ''running''), Sleep 5] @ running_rounds n e"
  by (simp add: running_rounds_def)

lemma check_job_status_after_running:
  assumes "\<forall>k < n. rundeck_get w (length tr + 3 * k) e = HttpResp 200 (StatusBodyStatus ''running'')"
  shows "check_job_status w e tr = check_job_status w e (tr @ running_rounds n e)"
  using assms
proof (induction n arbitrary: tr)
  case 0
  then show ?case by (simp add: running_rounds_def)
next
  case (Suc n)
  let ?tr = "tr @ [RundeckGet e, Print (PrintJobStatus ''running''), Sleep 5]"
  from Suc.prems have first: "rundeck_get w (length tr) e = HttpResp 200 (StatusBodyStatus ''running'')"
    by (metis add.right_neutral mult_0_right zero_less_Suc)
  have "\<forall>k < n. rundeck_get w (length ?tr + 3 * k) e = HttpResp 200 (StatusBodyStatus ''running'')"
  proof (intro allI impI)
    fix k assume "k < n"
    then have "Suc k < Suc n" by simp
    with Suc.prems
    have "rundeck_get w (length tr + 3 * Suc k) e = HttpResp 200 (StatusBodyStatus ''running'')"
      by blast
    moreover have "length tr + 3 * Suc k = length ?tr + 3 * k" by simp
    ultimately show "rundeck_get w (length ?tr + 3 * k) e = HttpResp 200 (StatusBodyStatus ''running'')"
      by metis
  qed
  from Suc.IH [OF this]
  have "check_job_status w e ?tr = check_job_status w e (?tr @ running_rounds n e)" .
  moreover have "check_job_status w e tr = check_job_status w e ?tr"
    using check_job_status_round [OF first] by simp
  ultimately show ?case by (simp add: running_rounds_Suc)
qed

lemma check_job_status_finishes:
  assumes "\<forall>k < n. rundeck_get w (length tr + 3 * k) e = HttpResp 200 (StatusBodyStatus ''running'')"
    and "rundeck_get w (length tr + 3 * n) e = HttpResp 200 (StatusBodyStatus s)"
    and "s \<in> set [''succeeded'', ''failed'', ''aborted'']"
  shows "check_job_status w e tr =
           Some (Return s, tr @ running_rounds n e @ [RundeckGet e, Print (PrintJobStatus s)])"
proof -
  have "rundeck_get w (length (tr @ running_rounds n e)) e = HttpResp 200 (StatusBodyStatus s)"
    using assms(2) by (simp add: length_running_rounds)
  from check_job_status_final [OF this assms(3)] check_job_status_after_running [OF assms(1)]
  show ?thesis by simp
qed

subsection \<open>Polling a running job\<close>

text \<open>
  Claim C1. The specification says that polling a running request leaves it unchanged and
  stops after a configured maximum number of polls, the request then failing as
  indeterminate. The loop of \<^verbatim>\<open>check_job_status\<close> is \<^verbatim>\<open>while True\<close> and has no such
  maximum. What holds: a status poll answered running only sends the status request, prints
  the status and sleeps 5 seconds before the next round (no ticket update, no message); and
  when every status poll is answered running, the call never returns.
\<close>

theorem polling_has_no_bound:
  "(rundeck_get w (length tr) e = HttpResp 200 (StatusBodyStatus ''running'') \<longrightarrow>
      check_job_status w e tr =
        check_job_status w e (tr @ [RundeckGet e, Print (PrintJobStatus ''running''), Sleep 5]))
   \<and> ((\<forall>t. rundeck_get w t e = HttpResp 200 (StatusBodyStatus ''running'')) \<longrightarrow>
      check_job_status w e tr = None)"
proof (intro conjI impI)
  assume "rundeck_get w (length tr) e = HttpResp 200 (StatusBodyStatus ''running'')"
  then show "check_job_status w e tr =
           check_job_status w e (tr @ [RundeckGet e, Print (PrintJobStatus ''running''), Sleep 5])"
    by (rule check_job_status_round) simp
next
  assume "\<forall>t. rundeck_get w t e = HttpResp 200 (StatusBodyStatus ''running'')"
  then have "\<forall>t. \<exists>s. rundeck_get w t e = HttpResp 200 (StatusBodyStatus s) \<and>
                      s \<notin> set [''succeeded'', ''failed'', ''aborted'']"
    by simp
  then show "check_job_status w e tr = None"
    by (rule check_job_status_diverges)
qed

theorem polling_has_no_bound_witness:
  "(\<forall>t. rundeck_get w_always_running t 42 = HttpResp 200 (StatusBodyStatus ''running''))
   \<and> check_job_status w_always_running 42 [] =
       check_job_status w_always_running 42 [RundeckGet 42, Print (PrintJobStatus ''running''), Sleep 5]
   \<and> check_job_status w_always_running 42 [] = None"
proof -
  have running: "\<forall>t. rundeck_get w_always_running t 42 = HttpResp 200 (StatusBodyStatus ''running'')"
    by (simp add: w_always_running_def w_happy_def)
  from running polling_has_no_bound [where w = w_always_running and tr = "[]" and e = 42]
  show ?thesis unfolding append_Nil by blast
qed

text \<open>Against C1 as stated: approving the request while the job stays running, the approval
  handler never returns, so the request never fails as indeterminate.\<close>

theorem approval_never_returns_counterexample:
  "handle_admin_approval w_always_running approve_card pending_bot [] = None"
proof -
  have "\<forall>t. \<exists>s. rundeck_get w_always_running t 42 = HttpResp 200 (StatusBodyStatus s) \<and>
                      s \<notin> set [''succeeded'', ''failed'', ''aborted'']"
    by (simp add: w_always_running_def w_happy_def)
  then have "\<And>tr. check_job_status w_always_running 42 tr = None"
    by (rule check_job_status_diverges)
  moreover have "\<And>tr. run_rundeck_job w_always_running ''zoom'' ''5.0'' tr
                   = (Return (Some 42), tr @ [RundeckRun ''zoom'' (Some ''5.0'')])"
    by (simp add: run_rundeck_job_def w_always_running_def w_happy_def truthy_def)
  ultimately show ?thesis
    by (simp add: handle_admin_approval_def approve_card_def dict_get_def falsy_id_def
          Let_def split_def)
qed

subsection \<open>The ticket update\<close>

lemma update_no_match:
  assumes "is_success code"
    and "sn_lookup w (Suc (length tr)) incident_number = HttpResp code (LookupBody [])"
  shows "update_incident_state_sn w incident_number new_state tr =
           (UpdError (IncidentNotFound incident_number),
            tr @ [Print (PrintUpdating incident_number new_state), SnLookup incident_number])"
  using assms by (simp add: update_incident_state_sn_def Let_def)

lemma update_invalid_state:
  assumes "map_of state_map (lower new_state) = None"
  shows "\<not> upd_success (fst (update_incident_state_sn w incident_number new_state tr))"
    and "ticket_patches (snd (update_incident_state_sn w incident_number new_state tr)) =
           ticket_patches tr"
  using assms
  by (simp_all add: update_incident_state_sn_def Let_def ticket_patches_def
        split: http.split lookup_body.split list.split option.split)

lemma state_map_none:
  "s \<notin> set [''new'', ''in progress'', ''closed'', ''cancelled''] \<Longrightarrow> map_of state_map s = None"
  by (simp add: state_map_def)

lemma lower_cancelled: "lower ''cancelled'' = ''cancelled''"
  by (simp add: lower_def lower_char_def)

lemma lower_closed: "lower ''closed'' = ''closed''"
  by (simp add: lower_def lower_char_def)

lemma update_requested:
  "\<exists>r rest. update_incident_state_sn w incident_number new_state tr =
      (r, tr @ [Print (PrintUpdating incident_number new_state), SnLookup incident_number] @ rest)
    \<and> list_all is_update_effect rest"
  by (simp add: update_incident_state_sn_def Let_def
        split: http.split lookup_body.split list.split option.split patch_body.split)

lemma update_found_patches:
  assumes "is_success code"
    and "sn_lookup w (Suc (length tr)) incident_number = HttpResp code (LookupBody (Some sys_id # rows))"
    and "map_of state_map (lower new_state) = Some mapped_state"
    and "truthy mapped_state"
  shows "\<exists>r rest. update_incident_state_sn w incident_number new_state tr =
           (r, tr @ [Print (PrintUpdating incident_number new_state), SnLookup incident_number,
                     SnPatch sys_id mapped_state] @ rest)"
  using assms
  by (simp add: update_incident_state_sn_def Let_def split: http.split patch_body.split)

lemma update_from_found:
  assumes "is_success code \<and>
           sn_lookup w (Suc (length tr)) incident_number = HttpResp code (LookupBody (Some sys_id # rows))"
    and "map_of state_map (lower new_state) = Some mapped_state"
    and "truthy mapped_state"
  shows "prefix (tr @ [Print (PrintUpdating incident_number new_state), SnLookup incident_number,
                       SnPatch sys_id mapped_state])
           (snd (update_incident_state_sn w incident_number new_state tr))"
proof -
  from assms update_found_patches [of code w tr incident_number sys_id rows new_state mapped_state]
  obtain r rest where "update_incident_state_sn w incident_number new_state tr =
           (r, tr @ [Print (PrintUpdating incident_number new_state), SnLookup incident_number,
                     SnPatch sys_id mapped_state] @ rest)" by blast
  then show ?thesis by (simp add: prefix_def)
qed

text \<open>
  Claim C9. A call of the ticket-state update whose target state, in lower case, is none of
  new, in progress, closed, cancelled, or whose lookup finds no incident of that number,
  returns an error and sends no update request: the updates in the trace are those that
  were there before the call.
\<close>

theorem update_rejects_bad_input:
  assumes "lower new_state \<notin> set [''new'', ''in progress'', ''closed'', ''cancelled'']
           \<or> (\<exists>code. is_success code \<and>
                 sn_lookup w (Suc (length tr)) incident_number = HttpResp code (LookupBody []))"
  shows "\<not> upd_success (fst (update_incident_state_sn w incident_number new_state tr))
         \<and> ticket_patches (snd (update_incident_state_sn w incident_number new_state tr)) =
             ticket_patches tr"
  using assms
proof
  assume "lower new_state \<notin> set [''new'', ''in progress'', ''closed'', ''cancelled'']"
  then have "map_of state_map (lower new_state) = None" by (rule state_map_none)
  then show ?thesis using update_invalid_state by blast
next
  assume "\<exists>code. is_success code \<and>
            sn_lookup w (Suc (length tr)) incident_number = HttpResp code (LookupBody [])"
  then obtain code where "is_success code"
    "sn_lookup w (Suc (length tr)) incident_number = HttpResp code (LookupBody [])" by blast
  then show ?thesis by (simp add: update_no_match ticket_patches_def)
qed

theorem update_rejects_bad_input_witness:
  "lower ''Done'' \<notin> set [''new'', ''in progress'', ''closed'', ''cancelled'']
   \<and> \<not> upd_success (fst (update_incident_state_sn w_happy ''INC001'' ''Done'' []))
   \<and> ticket_patches (snd (update_incident_state_sn w_happy ''INC001'' ''Done'' [])) = ticket_patches []
   \<and> is_success 200
   \<and> sn_lookup w_no_incident (Suc (length ([] :: trace))) ''INC404'' = HttpResp 200 (LookupBody [])
   \<and> \<not> upd_success (fst (update_incident_state_sn w_no_incident ''INC404'' ''closed'' []))
   \<and> ticket_patches (snd (update_incident_state_sn w_no_incident ''INC404'' ''closed'' [])) = ticket_patches []"
proof -
  have bad: "lower ''Done'' \<notin> set [''new'', ''in progress'', ''closed'', ''cancelled'']"
    by (simp add: lower_def lower_char_def)
  have none: "is_success 200 \<and>
      sn_lookup w_no_incident (Suc (length ([] :: trace))) ''INC404'' = HttpResp 200 (LookupBody [])"
    by (simp add: is_success_def w_no_incident_def w_happy_def)
  from none have ex: "\<exists>code. is_success code \<and>
      sn_lookup w_no_incident (Suc (length ([] :: trace))) ''INC404'' = HttpResp code (LookupBody [])"
    by blast
  show ?thesis
    using bad none update_rejects_bad_input [of "''Done''" w_happy "[]" "''INC001''", OF disjI1, OF bad]
      update_rejects_bad_input [of "''closed''" w_no_incident "[]" "''INC404''", OF disjI2, OF ex]
    by blast
qed

subsection \<open>The install submission\<close>

text \<open>
  Claim C10. An install submission whose app or version is missing or empty is answered by
  the warning message alone: the bot is unchanged and the warning is the only effect, so no
  incident is created, nothing is logged and no approval card is sent.
\<close>

theorem install_without_selection:
  assumes "dict_get card_data ''action'' [] = ''install''"
    and "map_of card_data ''app'' \<in> {None, Some []} \<or> map_of card_data ''version'' \<in> {None, Some []}"
  shows "handle_card_submission w card_data b tr = Some (b, tr @ [Send MsgSelectVersion])"
  using assms
  by (auto simp: handle_card_submission_def card_install_def dict_get_def truthy_def Let_def)

theorem install_without_selection_witness:
  "dict_get [(''action'', ''install''), (''app'', ''zoom'')] ''action'' [] = ''install''
   \<and> map_of [(''action'', ''install''), (''app'', ''zoom'')] ''version'' \<in> {None, Some []}
   \<and> handle_card_submission w_happy [(''action'', ''install''), (''app'', ''zoom'')] init_bot []
       = Some (init_bot, [] @ [Send MsgSelectVersion])"
proof -
  have a: "dict_get [(''action'', ''install''), (''app'', ''zoom'')] ''action'' [] = ''install''"
    by (simp add: dict_get_def)
  have v: "map_of [(''action'', ''install''), (''app'', ''zoom'')] ''version'' \<in> {None, Some []}"
    by simp
  from a v install_without_selection [OF a disjI2, OF v] show ?thesis by blast
qed

subsection \<open>The approval handler\<close>

lemma run_rundeck_job_failed:
  assumes "rundeck_post w (length tr) app (version_option version) = HttpResp code body"
    and "code \<noteq> 200"
  shows "run_rundeck_job w app version tr =
           (Return None, tr @ [RundeckRun app (version_option version), Print (PrintTriggerFailed code)])"
  using assms by (simp add: run_rundeck_job_def version_option_def Let_def)

lemma run_rundeck_job_started:
  assumes "rundeck_post w (length tr) app (version_option version) = HttpResp 200 (RunBodyId i)"
  shows "run_rundeck_job w app version tr =
           (Return (Some i), tr @ [RundeckRun app (version_option version)])"
  using assms by (simp add: run_rundeck_job_def version_option_def Let_def)

lemma handle_admin_approval_after_log:
  "handle_admin_approval w card_data b tr =
     (let incident_number = incident_of card_data;
          software_name = software_of card_data;
          version = version_of card_data
      in case run_rundeck_job w software_name version (approved_trace w card_data tr) of
           (Raise e, tr5) \<Rightarrow> Some (Raise e, b, tr5)
         | (Return execution_id, tr5) \<Rightarrow>
             (case (if falsy_id execution_id then None else execution_id) of
                None \<Rightarrow>
                  Some (Return (), b,
                        send_feedback_card incident_number software_name version ''failed''
                          (tr5 @ [Send MsgTriggerFailed]))
              | Some execution \<Rightarrow>
                  (case check_job_status w execution (tr5 @ [Send (MsgJobStarted execution)]) of
                     None \<Rightarrow> None
                   | Some (Raise e, tr7) \<Rightarrow> Some (Raise e, b, tr7)
                   | Some (Return final_status, tr7) \<Rightarrow>
                       (let (status_msg, installation_status, tr8) =
                              (if final_status = ''succeeded'' then
                                 (''Rundeck job succeeded, software installed'', ''success'',
                                  snd (update_incident_state_sn w incident_number ''closed'' tr7)
                                    @ [Send (MsgInstallSucceeded software_name version)])
                               else if final_status \<in> set [''failed'', ''aborted''] then
                                 (''Rundeck job '' @ final_status, ''failed'',
                                  snd (update_incident_state_sn w incident_number ''cancelled'' tr7)
                                    @ [Send (MsgInstallFailed software_name version)])
                               else
                                 (''Rundeck job error'', ''failed'', tr7 @ [Send MsgStatusUnknown]));
                            tr9 = tr8 @ [DbLogRequest incident_number software_name version status_msg];
                            tr10 = send_feedback_card incident_number software_name version
                                     installation_status tr9
                        in Some (Return (), reset_admin_mode b, tr10)))))"
  unfolding handle_admin_approval_def approved_trace_def Let_def split_def by (rule refl)

text \<open>
  Claim C2. The specification says that after a failed trigger the ticket is set to
  cancelled and the feedback stage is not entered. The handler sends the feedback card on
  purpose (\<^verbatim>\<open># Send feedback card for failed trigger\<close>). What holds: when the run request
  is answered with a status other than 200, the handler reports the failed trigger, sends
  the feedback card with status failed and returns at once, without a status poll.
\<close>

theorem trigger_failure_sends_feedback_card:
  assumes "rundeck_post w (length (approved_trace w card_data tr))
             (software_of card_data)
             (version_option (version_of card_data)) = HttpResp code body"
    and "code \<noteq> 200"
  shows "handle_admin_approval w card_data b tr =
           Some (Return (), b,
                 approved_trace w card_data tr @
                 [run_request card_data,
                  Print (PrintTriggerFailed code),
                  Send MsgTriggerFailed,
                  Send MsgFeedbackPrompt,
                  feedback_card_of card_data ''failed''])"
  by (simp add: handle_admin_approval_after_log run_rundeck_job_failed [OF assms] falsy_id_def
        send_feedback_card_def build_feedback_card_def Let_def)

theorem trigger_failure_sends_feedback_card_witness:
  "rundeck_post w_trigger_fails (length (approved_trace w_trigger_fails approve_card []))
     (software_of approve_card)
     (version_option (version_of approve_card)) = HttpResp 500 RunBodyInvalid
   \<and> (500 :: nat) \<noteq> 200
   \<and> handle_admin_approval w_trigger_fails approve_card pending_bot [] =
         Some (Return (), pending_bot,
               approved_trace w_trigger_fails approve_card [] @
               [run_request approve_card,
                Print (PrintTriggerFailed 500),
                Send MsgTriggerFailed,
                Send MsgFeedbackPrompt,
                feedback_card_of approve_card ''failed''])"
proof -
  have answer: "rundeck_post w_trigger_fails (length (approved_trace w_trigger_fails approve_card []))
     (software_of approve_card)
     (version_option (version_of approve_card)) = HttpResp 500 RunBodyInvalid"
    by (simp add: w_trigger_fails_def w_happy_def)
  have code: "(500 :: nat) \<noteq> 200" by simp
  from answer code trigger_failure_sends_feedback_card [OF answer code, of pending_bot]
  show ?thesis by blast
qed

text \<open>Against C2 as stated: the trigger answered with status 500. The feedback card is
  sent, and the only ticket update of the run is the one to in progress.\<close>

theorem trigger_failure_counterexample:
  "handle_admin_approval w_trigger_fails approve_card pending_bot [] =
     Some (Return (), pending_bot,
       [Print (PrintUpdating ''INC001'' ''in progress''),
        SnLookup ''INC001'',
        SnPatch ''sys1'' ''2'',
        Send (MsgSnUpdated ''INC001'' ''In Progress''),
        Send (MsgApproved ''INC001'' ''zoom'' ''5.0''),
        DbLogRequest ''INC001'' ''zoom'' ''5.0'' ''Admin approved the software installation request'',
        RundeckRun ''zoom'' (Some ''5.0''),
        Print (PrintTriggerFailed 500),
        Send MsgTriggerFailed,
        Send MsgFeedbackPrompt,
        SendCard (FeedbackCard ''INC001'' ''zoom'' ''5.0'' ''failed'')])"
  by code_simp

lemma check_job_status_error:
  assumes "rundeck_get w (length tr) e = HttpResp code body" and "code \<noteq> 200"
  shows "check_job_status w e tr = Some (Return ''error'', tr @ [RundeckGet e])"
  using assms by (subst check_job_status.simps) (simp add: Let_def)

lemma check_job_status_error_after:
  assumes "\<forall>k < n. rundeck_get w (length tr + 3 * k) e = HttpResp 200 (StatusBodyStatus ''running'')"
    and "rundeck_get w (length tr + 3 * n) e = HttpResp code body"
    and "code \<noteq> 200"
  shows "check_job_status w e tr =
           Some (Return ''error'', tr @ running_rounds n e @ [RundeckGet e])"
proof -
  have "rundeck_get w (length (tr @ running_rounds n e)) e = HttpResp code body"
    using assms(2) by (simp add: length_running_rounds)
  from check_job_status_error [OF this assms(3)] check_job_status_after_running [OF assms(1)]
  show ?thesis by simp
qed

text \<open>
  Claim C6. The specification says that a failed status poll leaves the request as it is and
  is retried. \<^verbatim>\<open>check_job_status\<close> returns \<^verbatim>\<open>"error"\<close> at the first answer that is not
  a 200, and the handler has a branch for it. What holds: when a status poll, the first or
  one after any number of polls answered running, is answered with a status other than 200,
  no further poll is made; the handler reports that the status could not be determined,
  logs the job error, sends the feedback card with status failed and resets the admin mode,
  without a ticket update.
\<close>

theorem poll_error_ends_polling:
  assumes "rundeck_post w (length (approved_trace w card_data tr))
             (software_of card_data)
             (version_option (version_of card_data)) = HttpResp 200 (RunBodyId i)"
    and "i \<noteq> 0"
    and "\<forall>k < n. rundeck_get w (length (approved_trace w card_data tr) + 2 + 3 * k) i
                   = HttpResp 200 (StatusBodyStatus ''running'')"
    and "rundeck_get w (length (approved_trace w card_data tr) + 2 + 3 * n) i = HttpResp code body"
    and "code \<noteq> 200"
  shows "handle_admin_approval w card_data b tr =
           Some (Return (), reset_admin_mode b,
                 approved_trace w card_data tr @
                 [run_request card_data, Send (MsgJobStarted i)] @
                 running_rounds n i @
                 [RundeckGet i,
                  Send MsgStatusUnknown,
                  log_of card_data ''Rundeck job error'',
                  Send MsgFeedbackPrompt,
                  feedback_card_of card_data ''failed''])"
proof -
  let ?tr6 = "approved_trace w card_data tr @
                [run_request card_data] @ [Send (MsgJobStarted i)]"
  have len: "length ?tr6 = length (approved_trace w card_data tr) + 2" by simp
  have running: "\<forall>k < n. rundeck_get w (length ?tr6 + 3 * k) i
                   = HttpResp 200 (StatusBodyStatus ''running'')"
    using assms(3) unfolding len .
  have failed: "rundeck_get w (length ?tr6 + 3 * n) i = HttpResp code body"
    using assms(4) unfolding len .
  from check_job_status_error_after [OF running failed assms(5)]
  have "check_job_status w i ?tr6 =
          Some (Return ''error'', ?tr6 @ running_rounds n i @ [RundeckGet i])" .
  then show ?thesis
    using assms(2)
    by (simp add: handle_admin_approval_after_log run_rundeck_job_started [OF assms(1)] falsy_id_def
        send_feedback_card_def build_feedback_card_def Let_def)
qed

theorem poll_error_ends_polling_witness:
  "rundeck_post w_poll_error_later (length (approved_trace w_poll_error_later approve_card []))
     (software_of approve_card)
     (version_option (version_of approve_card)) = HttpResp 200 (RunBodyId 42)
   \<and> (42 :: int) \<noteq> 0
   \<and> rundeck_get w_poll_error_later
        (length (approved_trace w_poll_error_later approve_card []) + 2 + 3 * 0) 42
        = HttpResp 200 (StatusBodyStatus ''running'')
   \<and> rundeck_get w_poll_error_later
        (length (approved_trace w_poll_error_later approve_card []) + 2 + 3 * 1) 42
        = HttpResp 200 (StatusBodyStatus ''running'')
   \<and> rundeck_get w_poll_error_later
        (length (approved_trace w_poll_error_later approve_card []) + 2 + 3 * 2) 42
        = HttpResp 503 StatusBodyInvalid
   \<and> (503 :: nat) \<noteq> 200
   \<and> handle_admin_approval w_poll_error_later approve_card pending_bot [] =
         Some (Return (), reset_admin_mode pending_bot,
               approved_trace w_poll_error_later approve_card [] @
               [run_request approve_card, Send (MsgJobStarted 42)] @
               running_rounds 2 42 @
               [RundeckGet 42,
                Send MsgStatusUnknown,
                log_of approve_card ''Rundeck job error'',
                Send MsgFeedbackPrompt,
                feedback_card_of approve_card ''failed''])"
proof -
  have len: "length (approved_trace w_poll_error_later approve_card []) = 6"
    by code_simp
  have started: "rundeck_post w_poll_error_later (length (approved_trace w_poll_error_later approve_card []))
     (software_of approve_card)
     (version_option (version_of approve_card)) = HttpResp 200 (RunBodyId 42)"
    by (simp add: w_poll_error_later_def w_happy_def)
  have id: "(42 :: int) \<noteq> 0" by simp
  have running: "\<forall>k < 2. rundeck_get w_poll_error_later
                  (length (approved_trace w_poll_error_later approve_card []) + 2 + 3 * k) 42
                = HttpResp 200 (StatusBodyStatus ''running'')"
    unfolding len by (simp add: w_poll_error_later_def w_happy_def)
  have answer: "rundeck_get w_poll_error_later
        (length (approved_trace w_poll_error_later approve_card []) + 2 + 3 * 2) 42
        = HttpResp 503 StatusBodyInvalid"
    unfolding len by (simp add: w_poll_error_later_def w_happy_def)
  have code: "(503 :: nat) \<noteq> 200" by simp
  from running have first: "rundeck_get w_poll_error_later
        (length (approved_trace w_poll_error_later approve_card []) + 2 + 3 * 0) 42
        = HttpResp 200 (StatusBodyStatus ''running'')"
    and second: "rundeck_get w_poll_error_later
        (length (approved_trace w_poll_error_later approve_card []) + 2 + 3 * 1) 42
        = HttpResp 200 (StatusBodyStatus ''running'')"
    by (metis zero_less_numeral, metis one_less_numeral_iff semiring_norm(76))
  from started id first second answer code
    poll_error_ends_polling [OF started id running answer code, of pending_bot]
  show ?thesis by blast
qed

text \<open>Against C6 as stated: the first status poll answered with status 503.\<close>

theorem poll_error_counterexample:
  "handle_admin_approval w_poll_error approve_card pending_bot [] =
     Some (Return (), init_bot,
       [Print (PrintUpdating ''INC001'' ''in progress''),
        SnLookup ''INC001'',
        SnPatch ''sys1'' ''2'',
        Send (MsgSnUpdated ''INC001'' ''In Progress''),
        Send (MsgApproved ''INC001'' ''zoom'' ''5.0''),
        DbLogRequest ''INC001'' ''zoom'' ''5.0'' ''Admin approved the software installation request'',
        RundeckRun ''zoom'' (Some ''5.0''),
        Send (MsgJobStarted 42),
        RundeckGet 42,
        Send MsgStatusUnknown,
        DbLogRequest ''INC001'' ''zoom'' ''5.0'' ''Rundeck job error'',
        Send MsgFeedbackPrompt,
        SendCard (FeedbackCard ''INC001'' ''zoom'' ''5.0'' ''failed'')])"
  by code_simp

text \<open>
  Claim C7. For a started job (the run request answered 200 with a truthy execution id)
  whose polling returns succeeded, the handler requests the ticket update to closed (and
  sends the update with state 7 when the lookup finds the incident), reports the success,
  logs it and then sends the feedback card with status success. When the polling returns
  failed or aborted, it requests the update to cancelled (state 8), reports the failure,
  logs it and sends the feedback card with status failed. In both cases it returns
  normally with the admin mode reset.
\<close>

theorem job_outcome_updates_ticket_then_feedback:
  assumes "rundeck_post w (length (approved_trace w card_data tr))
             (software_of card_data)
             (version_option (version_of card_data)) = HttpResp 200 (RunBodyId i)"
    and "i \<noteq> 0"
    and "check_job_status w i
           (approved_trace w card_data tr @
            [run_request card_data,
             Send (MsgJobStarted i)]) = Some (Return final_status, tr7)"
  shows "(final_status = ''succeeded'' \<longrightarrow>
            handle_admin_approval w card_data b tr =
              Some (Return (), reset_admin_mode b,
                    snd (update_incident_state_sn w (incident_of card_data) ''closed'' tr7) @
                    [Send (MsgInstallSucceeded (software_of card_data)
                             (version_of card_data)),
                     log_of card_data ''Rundeck job succeeded, software installed'',
                     Send MsgFeedbackPrompt,
                     feedback_card_of card_data ''success''])
            \<and> (is_success code \<and>
                sn_lookup w (Suc (length tr7)) (incident_of card_data) =
                  HttpResp code (LookupBody (Some sys_id # rows))
                \<longrightarrow> prefix (tr7 @ [Print (PrintUpdating (incident_of card_data) ''closed''),
                                   SnLookup (incident_of card_data),
                                   SnPatch sys_id ''7''])
                      (snd (update_incident_state_sn w (incident_of card_data) ''closed'' tr7))))
       \<and> (final_status \<in> set [''failed'', ''aborted''] \<longrightarrow>
            handle_admin_approval w card_data b tr =
              Some (Return (), reset_admin_mode b,
                    snd (update_incident_state_sn w (incident_of card_data) ''cancelled'' tr7) @
                    [Send (MsgInstallFailed (software_of card_data)
                             (version_of card_data)),
                     log_of card_data (''Rundeck job '' @ final_status),
                     Send MsgFeedbackPrompt,
                     feedback_card_of card_data ''failed''])
            \<and> (is_success code \<and>
                sn_lookup w (Suc (length tr7)) (incident_of card_data) =
                  HttpResp code (LookupBody (Some sys_id # rows))
                \<longrightarrow> prefix (tr7 @ [Print (PrintUpdating (incident_of card_data) ''cancelled''),
                                   SnLookup (incident_of card_data),
                                   SnPatch sys_id ''8''])
                      (snd (update_incident_state_sn w (incident_of card_data) ''cancelled'' tr7))))"
proof -
  have closed: "map_of state_map (lower ''closed'') = Some ''7''"
    by (simp add: lower_closed state_map_def)
  have cancelled: "map_of state_map (lower ''cancelled'') = Some ''8''"
    by (simp add: lower_cancelled state_map_def)
  have t: "truthy ''7''" "truthy ''8''" by (simp_all add: truthy_def)
  have run: "final_status = ''succeeded'' \<or> final_status \<in> set [''failed'', ''aborted''] \<Longrightarrow>
        handle_admin_approval w card_data b tr =
          Some (Return (), reset_admin_mode b,
             (if final_status = ''succeeded''
              then snd (update_incident_state_sn w (incident_of card_data) ''closed'' tr7) @
                     [Send (MsgInstallSucceeded (software_of card_data)
                             (version_of card_data)),
                      log_of card_data ''Rundeck job succeeded, software installed'',
                      Send MsgFeedbackPrompt,
                      feedback_card_of card_data ''success'']
              else snd (update_incident_state_sn w (incident_of card_data) ''cancelled'' tr7) @
                    [Send (MsgInstallFailed (software_of card_data)
                             (version_of card_data)),
                     log_of card_data (''Rundeck job '' @ final_status),
                     Send MsgFeedbackPrompt,
                     feedback_card_of card_data ''failed'']))"
    using assms(2,3)
    by (auto simp: handle_admin_approval_after_log run_rundeck_job_started [OF assms(1)] falsy_id_def
          send_feedback_card_def build_feedback_card_def Let_def)
  show ?thesis
    using run update_from_found [OF _ closed t(1)] update_from_found [OF _ cancelled t(2)]
    by auto
qed

theorem job_outcome_updates_ticket_then_feedback_witness:
  "rundeck_post w_happy (length (approved_trace w_happy approve_card []))
     (software_of approve_card)
     (version_option (version_of approve_card)) = HttpResp 200 (RunBodyId 42)
   \<and> (42 :: int) \<noteq> 0
   \<and> check_job_status w_happy 42
         (approved_trace w_happy approve_card [] @
          [run_request approve_card,
           Send (MsgJobStarted 42)])
       = Some (Return ''succeeded'',
               polled_trace w_happy ''succeeded'')
   \<and> handle_admin_approval w_happy approve_card pending_bot [] =
       Some (Return (), reset_admin_mode pending_bot,
             snd (update_incident_state_sn w_happy (incident_of approve_card) ''closed''
                    (polled_trace w_happy ''succeeded'')) @
             [Send (MsgInstallSucceeded (software_of approve_card)
                      (version_of approve_card)),
              log_of approve_card ''Rundeck job succeeded, software installed'',
              Send MsgFeedbackPrompt,
              feedback_card_of approve_card ''success''])
   \<and> is_success 200
   \<and> sn_lookup w_happy (Suc (length (polled_trace w_happy ''succeeded'')))
         (incident_of approve_card) = HttpResp 200 (LookupBody [Some ''sys1''])
   \<and> prefix (polled_trace w_happy ''succeeded'' @
               [Print (PrintUpdating (incident_of approve_card) ''closed''),
                SnLookup (incident_of approve_card),
                SnPatch ''sys1'' ''7''])
         (snd (update_incident_state_sn w_happy (incident_of approve_card) ''closed''
                 (polled_trace w_happy ''succeeded'')))
   \<and> ''aborted'' \<in> set [''failed'', ''aborted'']
   \<and> rundeck_post w_job_aborted (length (approved_trace w_job_aborted approve_card []))
       (software_of approve_card)
       (version_option (version_of approve_card)) = HttpResp 200 (RunBodyId 42)
   \<and> check_job_status w_job_aborted 42
         (approved_trace w_job_aborted approve_card [] @
          [run_request approve_card,
           Send (MsgJobStarted 42)])
       = Some (Return ''aborted'',
               polled_trace w_job_aborted ''aborted'')
   \<and> handle_admin_approval w_job_aborted approve_card pending_bot [] =
       Some (Return (), reset_admin_mode pending_bot,
             snd (update_incident_state_sn w_job_aborted (incident_of approve_card) ''cancelled''
                    (polled_trace w_job_aborted ''aborted'')) @
             [Send (MsgInstallFailed (software_of approve_card)
                      (version_of approve_card)),
              log_of approve_card (''Rundeck job '' @ ''aborted''),
              Send MsgFeedbackPrompt,
              feedback_card_of approve_card ''failed''])"
proof -
  have started: "rundeck_post w_happy (length (approved_trace w_happy approve_card []))
     (software_of approve_card)
     (version_option (version_of approve_card)) = HttpResp 200 (RunBodyId 42)"
    by (simp add: w_happy_def)
  have id: "(42 :: int) \<noteq> 0" by simp
  have polled: "check_job_status w_happy 42
         (approved_trace w_happy approve_card [] @
          [run_request approve_card,
           Send (MsgJobStarted 42)])
       = Some (Return ''succeeded'',
               polled_trace w_happy ''succeeded'')"
    by code_simp
  have found: "is_success 200 \<and>
      sn_lookup w_happy (Suc (length (polled_trace w_happy ''succeeded'')))
         (incident_of approve_card) = HttpResp 200 (LookupBody [Some ''sys1''])"
    by (simp add: is_success_def w_happy_def)
  have status: "''aborted'' \<in> set [''failed'', ''aborted'']" by simp
  have started': "rundeck_post w_job_aborted (length (approved_trace w_job_aborted approve_card []))
       (software_of approve_card)
       (version_option (version_of approve_card)) = HttpResp 200 (RunBodyId 42)"
    by (simp add: w_job_aborted_def w_happy_def)
  have polled': "check_job_status w_job_aborted 42
         (approved_trace w_job_aborted approve_card [] @
          [run_request approve_card,
           Send (MsgJobStarted 42)])
       = Some (Return ''aborted'',
               polled_trace w_job_aborted ''aborted'')"
    by code_simp
  from job_outcome_updates_ticket_then_feedback [OF started id polled, where code = 200 and sys_id = "''sys1''" and rows = "[]"] found
  have patched: "prefix (polled_trace w_happy ''succeeded'' @
               [Print (PrintUpdating (incident_of approve_card) ''closed''),
                SnLookup (incident_of approve_card),
                SnPatch ''sys1'' ''7''])
         (snd (update_incident_state_sn w_happy (incident_of approve_card) ''closed''
                 (polled_trace w_happy ''succeeded'')))"
    by blast
  from job_outcome_updates_ticket_then_feedback [OF started id polled, of pending_bot]
  have succeeded: "handle_admin_approval w_happy approve_card pending_bot [] =
       Some (Return (), reset_admin_mode pending_bot,
             snd (update_incident_state_sn w_happy (incident_of approve_card) ''closed''
                    (polled_trace w_happy ''succeeded'')) @
             [Send (MsgInstallSucceeded (software_of approve_card)
                      (version_of approve_card)),
              log_of approve_card ''Rundeck job succeeded, software installed'',
              Send MsgFeedbackPrompt,
              feedback_card_of approve_card ''success''])"
    by blast
  from job_outcome_updates_ticket_then_feedback [OF started' id polled', of pending_bot] status
  have aborted: "handle_admin_approval w_job_aborted approve_card pending_bot [] =
       Some (Return (), reset_admin_mode pending_bot,
             snd (update_incident_state_sn w_job_aborted (incident_of approve_card) ''cancelled''
                    (polled_trace w_job_aborted ''aborted'')) @
             [Send (MsgInstallFailed (software_of approve_card)
                      (version_of approve_card)),
              log_of approve_card (''Rundeck job '' @ ''aborted''),
              Send MsgFeedbackPrompt,
              feedback_card_of approve_card ''failed''])"
    by blast
  from started id polled succeeded found patched status started' polled' aborted show ?thesis by blast
qed

subsection \<open>The rejection handler\<close>




subsection \<open>Repeated approvals, approvals out of turn\<close>

text \<open>Every run of the approval handler that returns has sent exactly one run request,
  right after the approval was logged; whatever follows sends none.\<close>

lemma run_rundeck_job_sends:
  "\<exists>r rest. run_rundeck_job w app version tr =
              (r, tr @ [RundeckRun app (version_option version)] @ rest)
           \<and> job_triggers rest = []"
  by (simp add: run_rundeck_job_def version_option_def Let_def job_triggers_def
        split: http.split run_body.split)

lemma approved_trace_extends:
  "\<exists>added. approved_trace w card_data tr = tr @ added \<and> job_triggers added = [] \<and>
           status_polls added = []"
proof -
  obtain u added where
    upd: "update_incident_state_sn w (incident_of card_data) ''in progress'' tr
            = (u, tr @ added)"
    and added: "list_all is_update_effect added"
    using update_extends by blast
  from update_added_filters [OF added]
  have "job_triggers added = []" "status_polls added = []" by blast+
  then show ?thesis
    using upd by (simp add: approved_trace_def Let_def job_triggers_def status_polls_def)
qed

lemma update_adds_no_trigger:
  "\<exists>added. snd (update_incident_state_sn w n s tr) = tr @ added \<and> job_triggers added = []"
proof -
  obtain u added where "update_incident_state_sn w n s tr = (u, tr @ added)"
    and "list_all is_update_effect added"
    using update_extends by blast
  with update_added_filters(1) show ?thesis by fastforce
qed

lemma after_polling_adds_no_trigger:
  assumes "(let (status_msg, installation_status, tr8) =
              (if final_status = ''succeeded'' then
                 (''Rundeck job succeeded, software installed'', ''success'',
                  snd (update_incident_state_sn w incident_number ''closed'' tr7)
                    @ [Send (MsgInstallSucceeded software_name version)])
               else if final_status \<in> set [''failed'', ''aborted''] then
                 (''Rundeck job '' @ final_status, ''failed'',
                  snd (update_incident_state_sn w incident_number ''cancelled'' tr7)
                    @ [Send (MsgInstallFailed software_name version)])
               else
                 (''Rundeck job error'', ''failed'', tr7 @ [Send MsgStatusUnknown]));
            tr9 = tr8 @ [DbLogRequest incident_number software_name version status_msg];
            tr10 = send_feedback_card incident_number software_name version
                     installation_status tr9
        in Some (Return (), reset_admin_mode b, tr10)) = Some (r, b', tr')"
  shows "\<exists>tail. tr' = tr7 @ tail \<and> job_triggers tail = []"
proof -
  obtain closed where closed:
    "snd (update_incident_state_sn w incident_number ''closed'' tr7) = tr7 @ closed"
    "job_triggers closed = []"
    using update_adds_no_trigger by blast
  obtain cancelled where cancelled:
    "snd (update_incident_state_sn w incident_number ''cancelled'' tr7) = tr7 @ cancelled"
    "job_triggers cancelled = []"
    using update_adds_no_trigger by blast
  consider "final_status = ''succeeded''"
    | "final_status \<noteq> ''succeeded''" "final_status \<in> set [''failed'', ''aborted'']"
    | "final_status \<noteq> ''succeeded''" "final_status \<notin> set [''failed'', ''aborted'']"
    by blast
  then show ?thesis
  proof cases
    case 1
    with assms closed(1)
    have "tr' = tr7 @ (closed @ [Send (MsgInstallSucceeded software_name version),
             DbLogRequest incident_number software_name version
               ''Rundeck job succeeded, software installed'',
             Send MsgFeedbackPrompt,
             SendCard (build_feedback_card incident_number software_name version ''success'')])"
      by (simp add: Let_def send_feedback_card_def)
    moreover have "job_triggers (closed @ [Send (MsgInstallSucceeded software_name version),
             DbLogRequest incident_number software_name version
               ''Rundeck job succeeded, software installed'',
             Send MsgFeedbackPrompt,
             SendCard (build_feedback_card incident_number software_name version ''success'')]) = []"
      using closed(2) by (simp add: job_triggers_def)
    ultimately show ?thesis by blast
  next
    case 2
    with assms cancelled(1)
    have "tr' = tr7 @ (cancelled @ [Send (MsgInstallFailed software_name version),
             DbLogRequest incident_number software_name version (''Rundeck job '' @ final_status),
             Send MsgFeedbackPrompt,
             SendCard (build_feedback_card incident_number software_name version ''failed'')])"
      by (simp add: Let_def send_feedback_card_def)
    moreover have "job_triggers (cancelled @ [Send (MsgInstallFailed software_name version),
             DbLogRequest incident_number software_name version (''Rundeck job '' @ final_status),
             Send MsgFeedbackPrompt,
             SendCard (build_feedback_card incident_number software_name version ''failed'')]) = []"
      using cancelled(2) by (simp add: job_triggers_def)
    ultimately show ?thesis by blast
  next
    case 3
    with assms
    have "tr' = tr7 @ [Send MsgStatusUnknown,
             DbLogRequest incident_number software_name version ''Rundeck job error'',
             Send MsgFeedbackPrompt,
             SendCard (build_feedback_card incident_number software_name version ''failed'')]"
      by (simp add: Let_def send_feedback_card_def)
    moreover have "job_triggers [Send MsgStatusUnknown,
             DbLogRequest incident_number software_name version ''Rundeck job error'',
             Send MsgFeedbackPrompt,
             SendCard (build_feedback_card incident_number software_name version ''failed'')] = []"
      by (simp add: job_triggers_def)
    ultimately show ?thesis by blast
  qed
qed

lemma approval_after_trigger:
  assumes "handle_admin_approval w card_data b tr = Some (r, b', tr')"
  shows "\<exists>post. tr' = approved_trace w card_data tr @
                    [run_request card_data] @ post
              \<and> job_triggers post = []"
proof -
  let ?inc = "incident_of card_data"
  let ?sw = "software_of card_data"
  let ?ver = "version_of card_data"
  let ?A = "approved_trace w card_data tr"
  let ?run = "RundeckRun ?sw (version_option ?ver)"
  obtain rr rest where run: "run_rundeck_job w ?sw ?ver ?A = (rr, ?A @ [?run] @ rest)"
    and rest: "job_triggers rest = []"
    using run_rundeck_job_sends by blast
  show ?thesis
  proof (cases rr)
    case (Raise e)
    with assms run have "tr' = ?A @ [?run] @ rest"
      by (simp add: handle_admin_approval_after_log Let_def)
    with rest show ?thesis by blast
  next
    case (Return execution_id)
    show ?thesis
    proof (cases "if falsy_id execution_id then None else execution_id")
      case None
      with assms run Return
      have "tr' = ?A @ [?run] @ (rest @ [Send MsgTriggerFailed, Send MsgFeedbackPrompt,
                    SendCard (build_feedback_card ?inc ?sw ?ver ''failed'')])"
        by (simp add: handle_admin_approval_after_log Let_def send_feedback_card_def)
      moreover have "job_triggers (rest @ [Send MsgTriggerFailed, Send MsgFeedbackPrompt,
                    SendCard (build_feedback_card ?inc ?sw ?ver ''failed'')]) = []"
        using rest by (simp add: job_triggers_def)
      ultimately show ?thesis by blast
    next
      case (Some execution)
      let ?tr6 = "(?A @ [?run] @ rest) @ [Send (MsgJobStarted execution)]"
      from assms run Return Some obtain res where
        polled: "check_job_status w execution ?tr6 = Some res"
        by (cases "check_job_status w execution ?tr6")
           (simp_all add: handle_admin_approval_after_log Let_def)
      from check_job_status_returns [OF polled] obtain added where
        added: "snd res = ?tr6 @ added" "list_all is_poll_effect added"
        by blast
      have no_trig: "job_triggers added = []" using poll_added_filters [OF added(2)] by blast
      have "\<exists>tail. tr' = snd res @ tail \<and> job_triggers tail = []"
      proof (cases "fst res")
        case (Raise e)
        with assms run \<open>rr = Return execution_id\<close> Some polled have "tr' = snd res @ []"
          by (cases res) (simp add: handle_admin_approval_after_log Let_def)
        then show ?thesis by (simp add: job_triggers_def)
      next
        case (Return final_status)
        with assms run \<open>rr = Return execution_id\<close> Some polled
        show ?thesis
          by (cases res)
             (simp add: handle_admin_approval_after_log [of w card_data b tr]
                after_polling_adds_no_trigger Let_def)
      qed
      then obtain tail where "tr' = snd res @ tail" "job_triggers tail = []" by blast
      with added(1)
      have "tr' = ?A @ [?run] @ (rest @ [Send (MsgJobStarted execution)] @ added @ tail)"
        by simp
      moreover
      have "job_triggers (rest @ [Send (MsgJobStarted execution)] @ added @ tail) = []"
        using rest no_trig \<open>job_triggers tail = []\<close> by (simp add: job_triggers_def)
      ultimately show ?thesis by blast
    qed
  qed
qed

text \<open>
  Claim C5. The specification says that over the lifetime of a request the job is triggered
  at most once, and that a second approval does not trigger a second job. The bot keeps no
  record of what it has triggered. What holds, for one handling of an approval that
  returns: it sends exactly one run request, after the ticket update to in progress, the
  approval message and the approval log, and no status poll comes before that request.
  Each further approval of the same request triggers the job again.
\<close>

theorem approval_triggers_once:
  assumes "handle_admin_approval w card_data b tr = Some (r, b', tr')"
  shows "job_triggers tr' =
           job_triggers tr @ [run_request card_data]
         \<and> prefix (approved_trace w card_data tr @
                    [run_request card_data]) tr'
         \<and> status_polls (approved_trace w card_data tr) = status_polls tr"
proof -
  from approval_after_trigger [OF assms] obtain post where
    post: "tr' = approved_trace w card_data tr @
                    [run_request card_data] @ post"
      "job_triggers post = []" by blast
  obtain added where added: "approved_trace w card_data tr = tr @ added"
    "job_triggers added = []" "status_polls added = []"
    using approved_trace_extends by blast
  have "job_triggers tr' =
           job_triggers tr @ [run_request card_data]"
    using post added(1,2) by (simp add: job_triggers_def)
  moreover have "prefix (approved_trace w card_data tr @
                    [run_request card_data]) tr'"
    using post(1) by (simp add: prefix_def)
  moreover have "status_polls (approved_trace w card_data tr) = status_polls tr"
    using added(1,3) by (simp add: status_polls_def)
  ultimately show ?thesis by blast
qed

theorem approval_triggers_once_witness:
  "handle_admin_approval w_happy approve_card pending_bot [] = Some (Return (), init_bot, approved_run)
   \<and> job_triggers approved_run =
       job_triggers [] @ [run_request approve_card]
   \<and> status_polls (approved_trace w_happy approve_card []) = status_polls []"
proof -
  have run: "handle_admin_approval w_happy approve_card pending_bot [] =
               Some (Return (), init_bot, approved_run)"
    by code_simp
  from run approval_triggers_once [OF run] show ?thesis by blast
qed

text \<open>Against C5 as stated: the approval card of one request submitted twice.\<close>

theorem second_approval_triggers_again_counterexample:
  "map_option (job_triggers \<circ> snd) (run_cards w_happy [approve_card, approve_card] pending_bot [])
     = Some [RundeckRun ''zoom'' (Some ''5.0''), RundeckRun ''zoom'' (Some ''5.0'')]"
  by code_simp

lemma approved_trace_requests_update:
  "prefix (tr @ [Print (PrintUpdating (incident_of card_data) ''in progress''),
                 SnLookup (incident_of card_data)])
     (approved_trace w card_data tr)"
proof -
  obtain u rest where
    "update_incident_state_sn w (incident_of card_data) ''in progress'' tr =
       (u, tr @ [Print (PrintUpdating (incident_of card_data) ''in progress''),
                 SnLookup (incident_of card_data)] @ rest)"
    using update_requested by blast
  then show ?thesis by (simp add: approved_trace_def Let_def prefix_def)
qed

lemma approval_same_effects:
  "effects_of (handle_admin_approval w card_data b tr) =
   effects_of (handle_admin_approval w card_data b2 tr)"
  by (simp add: effects_of_def handle_admin_approval_after_log Let_def split_def
        split: prod.split result.split option.split)

text \<open>
  Claim C3. The specification says that approving a request that is not pending approval
  fails with an invalid-state error and calls nothing outside. The handler reads neither
  \<open>is_admin_mode\<close> nor \<open>pending_approval\<close> and has no such error. What holds: the
  result and the effects of handling an approval are the same whatever state the bot is in,
  and every handling that returns has requested the ticket update to in progress and sent
  the run request.
\<close>

theorem approval_is_not_validated:
  "effects_of (handle_admin_approval w card_data b tr) =
     effects_of (handle_admin_approval w card_data b2 tr)
   \<and> (handle_admin_approval w card_data b tr = Some (r, b', tr') \<longrightarrow>
        prefix (tr @ [Print (PrintUpdating (incident_of card_data) ''in progress''),
                      SnLookup (incident_of card_data)]) tr'
        \<and> run_request card_data \<in> set tr')"
proof -
  have "prefix (tr @ [Print (PrintUpdating (incident_of card_data) ''in progress''),
                      SnLookup (incident_of card_data)]) tr'
        \<and> run_request card_data \<in> set tr'"
    if run: "handle_admin_approval w card_data b tr = Some (r, b', tr')"
  proof -
    from approval_after_trigger [OF run] obtain post where
      post: "tr' = approved_trace w card_data tr @
                    [run_request card_data] @ post" by blast
    then have "prefix (approved_trace w card_data tr) tr'" by (simp add: prefix_def)
    with approved_trace_requests_update [of tr card_data w]
    have "prefix (tr @ [Print (PrintUpdating (incident_of card_data) ''in progress''),
                      SnLookup (incident_of card_data)]) tr'"
      by (rule prefix_order.trans)
    with post show ?thesis by simp
  qed
  with approval_same_effects show ?thesis by blast
qed

theorem approval_is_not_validated_witness:
  "handle_admin_approval w_happy approve_card init_bot [] = Some (Return (), init_bot, approved_run)
   \<and> effects_of (handle_admin_approval w_happy approve_card init_bot []) =
       effects_of (handle_admin_approval w_happy approve_card pending_bot [])
   \<and> prefix ([] @ [Print (PrintUpdating (incident_of approve_card) ''in progress''),
                    SnLookup (incident_of approve_card)]) approved_run
   \<and> run_request approve_card \<in> set approved_run"
proof -
  have run: "handle_admin_approval w_happy approve_card init_bot [] =
               Some (Return (), init_bot, approved_run)"
    by code_simp
  from run approval_is_not_validated [of w_happy approve_card init_bot "[]" pending_bot
      "Return ()" init_bot approved_run]
  show ?thesis by blast
qed

text \<open>Against C3 as stated: the request is rejected, then the approve button of the same
  card is submitted. The job is triggered and the cancelled ticket is set to in progress
  and to closed.\<close>

theorem approval_after_rejection_counterexample:
  "map_option (job_triggers \<circ> snd) (run_cards w_happy [reject_card, approve_card] pending_bot [])
     = Some [RundeckRun ''zoom'' (Some ''5.0'')]
   \<and> map_option (ticket_patches \<circ> snd) (run_cards w_happy [reject_card, approve_card] pending_bot [])
     = Some [SnPatch ''sys1'' ''8'', SnPatch ''sys1'' ''2'', SnPatch ''sys1'' ''7'']"
  by code_simp

subsection \<open>The audit log\<close>

text \<open>The polling loop reads nothing of the world but the answers to the status request;
  the ticket update, the trigger and the polling loop do not read the log.\<close>

lemma check_job_status_same_answers:
  assumes ret: "check_job_status w e tr = Some res"
  shows "rundeck_get w' = rundeck_get w \<longrightarrow> check_job_status w' e tr = Some res"
proof (rule check_job_status.raw_induct[where P = "\<lambda>w e tr res.
         rundeck_get w' = rundeck_get w \<longrightarrow> check_job_status w' e tr = Some res", OF _ ret])
  fix cjs :: "world \<Rightarrow> int \<Rightarrow> trace \<Rightarrow> (string result \<times> trace) option" and w e tr res
  assume IH: "\<And>w e tr res. cjs w e tr = Some res \<Longrightarrow>
                rundeck_get w' = rundeck_get w \<longrightarrow> check_job_status w' e tr = Some res"
    and step: "(let tr1 = tr @ [RundeckGet e]
        in case rundeck_get w (length tr) e of
             HttpRaise e \<Rightarrow> Some (Raise e, tr1)
           | HttpResp status_code body \<Rightarrow>
               if status_code = 200 then
                 (case body of
                    StatusBodyInvalid \<Rightarrow> Some (Raise JSONDecodeError, tr1)
                  | StatusBodyNoStatus \<Rightarrow> Some (Raise (KeyError ''status''), tr1)
                  | StatusBodyStatus status \<Rightarrow>
                      let tr2 = tr1 @ [Print (PrintJobStatus status)]
                      in if status \<in> set [''succeeded'', ''failed'', ''aborted'']
                         then Some (Return status, tr2)
                         else cjs w e (tr2 @ [Sleep 5]))
               else Some (Return ''error'', tr1)) = Some res"
  show "rundeck_get w' = rundeck_get w \<longrightarrow> check_job_status w' e tr = Some res"
  proof
    assume same: "rundeck_get w' = rundeck_get w"
    show "check_job_status w' e tr = Some res"
    proof (cases "\<exists>status. rundeck_get w (length tr) e = HttpResp 200 (StatusBodyStatus status)
                     \<and> status \<notin> set [''succeeded'', ''failed'', ''aborted'']")
      case True
      then obtain status where
        st: "rundeck_get w (length tr) e = HttpResp 200 (StatusBodyStatus status)"
            "status \<notin> set [''succeeded'', ''failed'', ''aborted'']" by blast
      with step have "cjs w e (tr @ [RundeckGet e, Print (PrintJobStatus status), Sleep 5]) = Some res"
        by (simp add: Let_def)
      from IH [OF this] same
      have "check_job_status w' e (tr @ [RundeckGet e, Print (PrintJobStatus status), Sleep 5]) = Some res"
        by blast
      moreover from st same
      have "rundeck_get w' (length tr) e = HttpResp 200 (StatusBodyStatus status)" by simp
      ultimately show ?thesis
        using check_job_status_round [OF _ st(2), of w' tr e] by simp
    next
      case False
      with step same show ?thesis
        by (subst check_job_status.simps)
           (auto simp: Let_def split: http.splits status_body.splits if_splits)
    qed
  qed
qed

lemma check_job_status_cong:
  assumes "rundeck_get w' = rundeck_get w"
  shows "check_job_status w' e tr = check_job_status w e tr"
proof (cases "check_job_status w e tr")
  case (Some res)
  with check_job_status_same_answers [OF Some, of w'] assms show ?thesis by simp
next
  case None
  show ?thesis
  proof (cases "check_job_status w' e tr")
    case None
    with \<open>check_job_status w e tr = None\<close> show ?thesis by simp
  next
    case (Some res)
    from check_job_status_same_answers [OF Some, of w] assms
    have "check_job_status w e tr = Some res" by simp
    with None show ?thesis by simp
  qed
qed

lemma update_ignores_log:
  "update_incident_state_sn (w\<lparr>db_log_request := f\<rparr>) n s tr = update_incident_state_sn w n s tr"
  by (simp add: update_incident_state_sn_def Let_def
        split: http.split lookup_body.split list.split option.split patch_body.split)

lemma run_ignores_log:
  "run_rundeck_job (w\<lparr>db_log_request := f\<rparr>) a v tr = run_rundeck_job w a v tr"
  by (simp add: run_rundeck_job_def Let_def split: http.split run_body.split)

lemma poll_ignores_log:
  "check_job_status (w\<lparr>db_log_request := f\<rparr>) e tr = check_job_status w e tr"
  by (rule check_job_status_cong) simp

lemma approval_ignores_log:
  "handle_admin_approval (w\<lparr>db_log_request := f\<rparr>) card_data b tr =
   handle_admin_approval w card_data b tr"
  unfolding handle_admin_approval_def update_ignores_log run_ignores_log poll_ignores_log
  by (rule refl)

lemma rejection_ignores_log:
  "handle_admin_rejection (w\<lparr>db_log_request := f\<rparr>) card_data b tr =
   handle_admin_rejection w card_data b tr"
  unfolding handle_admin_rejection_def update_ignores_log
  by (rule refl)

text \<open>
  Claim C4. The specification says that a failed audit write never blocks the transition it
  records, the admin-approval stage after ticket creation included. The install submission
  enters that stage under \<^verbatim>\<open>if log_success\<close> only. What holds: once the incident is
  created with a known number, the approval card is sent and the admin mode entered exactly
  when the log write succeeds; when it fails, the failure is printed and the handler ends
  with the bot unchanged. The approval and the rejection handler do not look at the result
  of their log writes and run the same whether or not these succeed.
\<close>

theorem log_failure_blocks_approval_stage_only:
  assumes "truthy (app_of card_data)" and "truthy (version_of card_data)"
    and "db_software_info w (Suc (length tr)) (app_of card_data)
           (version_of card_data) = SwInfo (Some name) (Some sw_version)"
    and "extract_incident_data w (''Installation of '' @ name @ '' v'' @ sw_version)
           (tr @ [Send (MsgCreatingTicket (app_of card_data) (version_of card_data)),
                  DbSoftwareInfo (app_of card_data) (version_of card_data)])
         = (Return incident_data, tr3)"
    and "create_incident_direct w incident_data tr3 = (Some j, tr4)"
    and "json_truthy j"
    and "incident_number_of j = Return incident_number"
    and "incident_number \<noteq> ''Unknown''"
  shows "card_install w card_data b tr =
           (if db_log_request w (length tr4 + 3) incident_number (app_of card_data)
                 (version_of card_data)
                 ''User initiated the request for the Software Installation''
            then (Return (),
                  b\<lparr>is_admin_mode := True,
                    pending_approval :=
                      [(''incident_number'', incident_number),
                       (''software_name'', app_of card_data),
                       (''version'', version_of card_data),
                       (''requester'', ''Guest'')]\<rparr>,
                  tr4 @ [Print PrintFullResponse, Print (PrintIncidentNumber incident_number),
                         Send (MsgIncidentCreated incident_number),
                         DbLogRequest incident_number (app_of card_data)
                           (version_of card_data)
                           ''User initiated the request for the Software Installation'',
                         Print (PrintRequestLogged incident_number),
                         Send MsgSwitchingToAdmin, Send MsgAdminNotification,
                         SendCard (AdminApprovalCard
                           [(''incident_number'', incident_number),
                            (''software_name'', app_of card_data),
                            (''version'', version_of card_data),
                            (''requester'', ''Guest'')])])
            else (Return (), b,
                  tr4 @ [Print PrintFullResponse, Print (PrintIncidentNumber incident_number),
                         Send (MsgIncidentCreated incident_number),
                         DbLogRequest incident_number (app_of card_data)
                           (version_of card_data)
                           ''User initiated the request for the Software Installation'',
                         Print (PrintLogFailed incident_number)]))
         \<and> handle_admin_approval (w\<lparr>db_log_request := f\<rparr>) approval b tr' =
             handle_admin_approval w approval b tr'
         \<and> handle_admin_rejection (w\<lparr>db_log_request := f\<rparr>) rejection b tr' =
             handle_admin_rejection w rejection b tr'"
proof -
  have "card_install w card_data b tr =
           (if db_log_request w (length tr4 + 3) incident_number (app_of card_data)
                 (version_of card_data)
                 ''User initiated the request for the Software Installation''
            then (Return (),
                  b\<lparr>is_admin_mode := True,
                    pending_approval :=
                      [(''incident_number'', incident_number),
                       (''software_name'', app_of card_data),
                       (''version'', version_of card_data),
                       (''requester'', ''Guest'')]\<rparr>,
                  tr4 @ [Print PrintFullResponse, Print (PrintIncidentNumber incident_number),
                         Send (MsgIncidentCreated incident_number),
                         DbLogRequest incident_number (app_of card_data)
                           (version_of card_data)
                           ''User initiated the request for the Software Installation'',
                         Print (PrintRequestLogged incident_number),
                         Send MsgSwitchingToAdmin, Send MsgAdminNotification,
                         SendCard (AdminApprovalCard
                           [(''incident_number'', incident_number),
                            (''software_name'', app_of card_data),
                            (''version'', version_of card_data),
                            (''requester'', ''Guest'')])])
            else (Return (), b,
                  tr4 @ [Print PrintFullResponse, Print (PrintIncidentNumber incident_number),
                         Send (MsgIncidentCreated incident_number),
                         DbLogRequest incident_number (app_of card_data)
                           (version_of card_data)
                           ''User initiated the request for the Software Installation'',
                         Print (PrintLogFailed incident_number)]))"
    using assms
    by (simp add: card_install_def Let_def truthy_def switch_to_admin_mode_def
          build_admin_approval_card_def dict_get_def numeral_3_eq_3)
  then show ?thesis
    using approval_ignores_log rejection_ignores_log by blast
qed

theorem log_failure_blocks_approval_stage_only_witness:
  "truthy (app_of install_card) \<and> truthy (version_of install_card)
   \<and> db_software_info w_log_fails (Suc (length ([] :: trace))) (app_of install_card)
        (version_of install_card) = SwInfo (Some ''zoom'') (Some ''5.0'')
   \<and> extract_incident_data w_log_fails (''Installation of '' @ ''zoom'' @ '' v'' @ ''5.0'')
        ([] @ [Send (MsgCreatingTicket (app_of install_card) (version_of install_card)),
               DbSoftwareInfo (app_of install_card) (version_of install_card)])
      = (Return (JObject [(''short_description'', ''Installation of zoom v5.0''),
                          (''description'', ''Installation of zoom v5.0''),
                          (''category'', ''Software''), (''caller'', ''Guest'')]),
         take 5 created_trace)
   \<and> create_incident_direct w_log_fails
        (JObject [(''short_description'', ''Installation of zoom v5.0''),
                  (''description'', ''Installation of zoom v5.0''),
                  (''category'', ''Software''), (''caller'', ''Guest'')])
        (take 5 created_trace)
      = (Some \<lparr>cj_result = ResultDict (Some ''INC001''), cj_number = NumberAbsent, cj_other_keys = False\<rparr>,
         created_trace)
   \<and> json_truthy \<lparr>cj_result = ResultDict (Some ''INC001''), cj_number = NumberAbsent, cj_other_keys = False\<rparr>
   \<and> incident_number_of \<lparr>cj_result = ResultDict (Some ''INC001''), cj_number = NumberAbsent, cj_other_keys = False\<rparr>
        = Return ''INC001''
   \<and> ''INC001'' \<noteq> ''Unknown''
   \<and> \<not> db_log_request w_log_fails (length created_trace + 3) ''INC001'' (app_of install_card)
          (version_of install_card)
          ''User initiated the request for the Software Installation''
   \<and> card_install w_log_fails install_card init_bot [] =
       (Return (), init_bot,
        created_trace @ [Print PrintFullResponse, Print (PrintIncidentNumber ''INC001''),
                         Send (MsgIncidentCreated ''INC001''),
                         DbLogRequest ''INC001'' (app_of install_card)
                           (version_of install_card)
                           ''User initiated the request for the Software Installation'',
                         Print (PrintLogFailed ''INC001'')])
   \<and> handle_admin_approval (w_log_fails\<lparr>db_log_request := db_log_request w_happy\<rparr>) approve_card pending_bot [] =
       handle_admin_approval w_log_fails approve_card pending_bot []
   \<and> handle_admin_rejection (w_log_fails\<lparr>db_log_request := db_log_request w_happy\<rparr>) reject_card pending_bot [] =
       handle_admin_rejection w_log_fails reject_card pending_bot []"
proof -
  have app: "truthy (app_of install_card)"
    and version: "truthy (version_of install_card)"
    by code_simp+
  have info: "db_software_info w_log_fails (Suc (length ([] :: trace))) (app_of install_card)
        (version_of install_card) = SwInfo (Some ''zoom'') (Some ''5.0'')"
    by code_simp
  have extracted: "extract_incident_data w_log_fails (''Installation of '' @ ''zoom'' @ '' v'' @ ''5.0'')
        ([] @ [Send (MsgCreatingTicket (app_of install_card) (version_of install_card)),
               DbSoftwareInfo (app_of install_card) (version_of install_card)])
      = (Return (JObject [(''short_description'', ''Installation of zoom v5.0''),
                          (''description'', ''Installation of zoom v5.0''),
                          (''category'', ''Software''), (''caller'', ''Guest'')]),
         take 5 created_trace)"
    by code_simp
  have created: "create_incident_direct w_log_fails
        (JObject [(''short_description'', ''Installation of zoom v5.0''),
                  (''description'', ''Installation of zoom v5.0''),
                  (''category'', ''Software''), (''caller'', ''Guest'')])
        (take 5 created_trace)
      = (Some \<lparr>cj_result = ResultDict (Some ''INC001''), cj_number = NumberAbsent, cj_other_keys = False\<rparr>,
         created_trace)"
    by code_simp
  have json: "json_truthy \<lparr>cj_result = ResultDict (Some ''INC001''), cj_number = NumberAbsent, cj_other_keys = False\<rparr>"
    by code_simp
  have number: "incident_number_of \<lparr>cj_result = ResultDict (Some ''INC001''), cj_number = NumberAbsent, cj_other_keys = False\<rparr>
        = Return ''INC001''"
    by code_simp
  have known: "''INC001'' \<noteq> ''Unknown''" by simp
  have failed: "\<not> db_log_request w_log_fails (length created_trace + 3) ''INC001'' (app_of install_card)
          (version_of install_card)
          ''User initiated the request for the Software Installation''"
    by (simp add: w_log_fails_def)
  from log_failure_blocks_approval_stage_only
         [OF app version info extracted created json number known,
          where b = init_bot and f = "db_log_request w_log_fails" and approval = approve_card
            and rejection = reject_card and tr' = "[]"]
       failed
  have "card_install w_log_fails install_card init_bot [] =
       (Return (), init_bot,
        created_trace @ [Print PrintFullResponse, Print (PrintIncidentNumber ''INC001''),
                         Send (MsgIncidentCreated ''INC001''),
                         DbLogRequest ''INC001'' (app_of install_card)
                           (version_of install_card)
                           ''User initiated the request for the Software Installation'',
                         Print (PrintLogFailed ''INC001'')])"
    by simp
  moreover
  from log_failure_blocks_approval_stage_only
         [OF app version info extracted created json number known,
          where b = pending_bot and f = "db_log_request w_happy" and approval = approve_card
            and rejection = reject_card and tr' = "[]"]
  have "handle_admin_approval (w_log_fails\<lparr>db_log_request := db_log_request w_happy\<rparr>) approve_card pending_bot [] =
       handle_admin_approval w_log_fails approve_card pending_bot []
     \<and> handle_admin_rejection (w_log_fails\<lparr>db_log_request := db_log_request w_happy\<rparr>) reject_card pending_bot [] =
       handle_admin_rejection w_log_fails reject_card pending_bot []"
    by blast
  ultimately show ?thesis
    using app version info extracted created json number known failed
    by blast
qed

text \<open>Against C4 as stated: the same install submission with the log write succeeding and
  with the log write failing.\<close>

theorem log_failure_counterexample:
  "handle_card_submission w_happy install_card init_bot [] =
     Some (pending_bot,
           created_trace @
           [Print PrintFullResponse,
            Print (PrintIncidentNumber ''INC001''),
            Send (MsgIncidentCreated ''INC001''),
            DbLogRequest ''INC001'' ''zoom'' ''5.0''
              ''User initiated the request for the Software Installation'',
            Print (PrintRequestLogged ''INC001''),
            Send MsgSwitchingToAdmin,
            Send MsgAdminNotification,
            SendCard (AdminApprovalCard
              [(''incident_number'', ''INC001''), (''software_name'', ''zoom''),
               (''version'', ''5.0''), (''requester'', ''Guest'')])])
   \<and> handle_card_submission w_log_fails install_card init_bot [] =
     Some (init_bot,
           created_trace @
           [Print PrintFullResponse,
            Print (PrintIncidentNumber ''INC001''),
            Send (MsgIncidentCreated ''INC001''),
            DbLogRequest ''INC001'' ''zoom'' ''5.0''
              ''User initiated the request for the Software Installation'',
            Print (PrintLogFailed ''INC001'')])"
  by code_simp

end
